theory Spec2Isabelle
  imports Main "HOL-Library.Word" "HOL-Library.Sublist"
begin

section \<open>The session of the daemon (cmd/daemon/session.go)\<close>

text \<open>
  The orchestration layer of the daemon is embedded as state-passing functions over a
  \<open>World\<close>: the \<open>Session\<close> struct together with the chronological list of the calls the
  session has made on its collaborators (resolver, Accesspoint, Login5, Spclient, Dealer,
  logger) and on its own stop channel.  The collaborators themselves are packages outside
  this file; what they answer is read from an environment \<open>Env\<close>, whose functions see
  the calls made so far, so that one collaborator may answer differently at every call.
  A panic raised inside a collaborator is outside the model.
\<close>

subsection \<open>Errors and outcomes\<close>

text \<open>
  \<open>Errorf m e\<close> is the value of \<^verbatim>\<open>fmt.Errorf("m: %w", e)\<close>; \<open>Error t\<close> is an error
  produced by a collaborator.
\<close>

datatype error = Error string | Errorf string error

fun Error_text :: "error \<Rightarrow> string" where
  "Error_text (Error t) = t"
| "Error_text (Errorf m e) = m @ '': '' @ Error_text e"

text \<open>
  A call of one of the session's methods returns, panics, or blocks: it is suspended in
  a channel send and stays so unless another goroutine receives from the channel.
\<close>

datatype 'a outcome = Returns 'a | Panics string | Blocks

subsection \<open>Data\<close>

type_synonym bytes = "8 word list"

text \<open>\<^verbatim>\<open>dealer.Message\<close>: the fields the session reads.\<close>

record Message =
  Uri :: string
  Headers :: "string \<rightharpoonup> string"
  Payload :: bytes

text \<open>
  The packet types of package \<^verbatim>\<open>ap\<close>: the session names \<^verbatim>\<open>PacketTypeProductInfo\<close>
  only, every other type is \<open>PacketTypeOther\<close> with its code.
\<close>

datatype PacketType = PacketTypeProductInfo | PacketTypeOther nat

record Packet =
  Type :: PacketType
  Payload_of :: bytes

text \<open>
  The credentials handed to \<^verbatim>\<open>Connect\<close> are a value of the interface type
  \<^verbatim>\<open>SessionCredentials\<close>; the type switch of \<^verbatim>\<open>Connect\<close> knows two dynamic types
  and has a default branch for every other value of the interface, the nil interface
  included.
\<close>

datatype SessionCredentials =
    SessionUserPassCredentials string string
  | SessionBlobCredentials string bytes
  | OtherCredentials

text \<open>Pointers to the collaborators: a reference, compared by identity.\<close>

datatype Accesspoint = Accesspoint_ref nat
datatype Login5 = Login5_ref nat
datatype Spclient = Spclient_ref nat
datatype Dealer = Dealer_ref nat

text \<open>
  A buffered channel of \<^verbatim>\<open>struct{}\<close>: its capacity and the number of values queued.
  A nil channel is \<open>None\<close> in the session.
\<close>

datatype chan = Chan (cap: nat) (queued: nat)

text \<open>The fields of \<^verbatim>\<open>App\<close> that the session reads.\<close>

record App =
  deviceName :: string
  deviceId :: string
  deviceType :: int
  clientToken :: string

record Session =
  app :: App
  stop :: "chan option"
  ap :: "Accesspoint option"
  login5 :: "Login5 option"
  sp :: "Spclient option"
  dealer :: "Dealer option"
  spotConnId :: string

subsection \<open>The connect-state request\<close>

text \<open>
  The messages of \<^verbatim>\<open>connectpb\<close> with the fields the session sets; every field it
  does not set keeps its zero value and is left out.  Of the two enumerations only the
  constants the session names are distinguished.
\<close>

datatype MemberType = MemberType_CONNECT_STATE | MemberType_other int
datatype PutStateReason = PutStateReason_NEW_DEVICE | PutStateReason_other int
datatype Capability_SupportsHifi = Capability_SupportsHifi bool bool

record Capabilities =
  CanBePlayer :: bool
  RestrictToLocal :: bool
  GaiaEqConnectId :: bool
  SupportsLogout :: bool
  IsObservable :: bool
  VolumeSteps_of :: int
  SupportedTypes :: "string list"
  CommandAcks :: bool
  SupportsRename :: bool
  Hidden :: bool
  DisableVolume :: bool
  ConnectDisabled :: bool
  SupportsPlaylistV2 :: bool
  IsControllable :: bool
  SupportsExternalEpisodes :: bool
  SupportsSetBackendMetadata :: bool
  SupportsTransferCommand :: bool
  SupportsCommandRequest :: bool
  IsVoiceEnabled :: bool
  NeedsFullPlayerState :: bool
  SupportsGzipPushes :: bool
  SupportsSetOptionsCommand :: bool
  SupportsHifi :: "Capability_SupportsHifi option"
  ConnectCapabilities :: string

record DeviceInfo =
  CanPlay :: bool
  Volume :: "32 word"
  Name :: string
  DeviceId :: string
  DeviceType :: int
  DeviceSoftwareVersion :: string
  ClientId :: string
  SpircVersion :: string
  Capabilities_of :: Capabilities

record PlayerState =
  IsSystemInitiated :: bool

record Device =
  DeviceInfo_of :: DeviceInfo
  PlayerState_of :: PlayerState

record PutStateRequest =
  ClientSideTimestamp :: "64 word"
  MemberType_of :: MemberType
  PutStateReason_of :: PutStateReason
  Device_of :: Device
  IsActive :: bool

definition VolumeSteps :: int where
  "VolumeSteps = 64"

subsection \<open>Calls and the environment\<close>

text \<open>
  One entry per call the session makes, with the receiver, the arguments and what the
  collaborator returned.  A Go result \<^verbatim>\<open>(T, error)\<close> is a pair whose second component
  is \<open>None\<close> for the nil error.
\<close>

datatype call =
    Call_NewLogin5 string string "Login5 option"
  | Call_GetAccesspoint string "error option"
  | Call_NewAccesspoint string string "Accesspoint option" "error option"
  | Call_ConnectUserPass "Accesspoint option" string string "error option"
  | Call_ConnectBlob "Accesspoint option" string bytes "error option"
  | Call_Login "Login5 option" string bytes "error option"
  | Call_GetSpclient string "error option"
  | Call_NewSpclient string string string string "Spclient option" "error option"
  | Call_GetDealer string "error option"
  | Call_NewDealer string string "Dealer option" "error option"
  | Call_PutConnectState "Spclient option" string PutStateRequest "error option"
  | Call_Receive "Accesspoint option" PacketType
  | Call_ReceiveMessage "Dealer option" "string list"
  | Send_stop
  | Call_Dealer_Close "Dealer option"
  | Call_Accesspoint_Close "Accesspoint option"
  | Log_Debugf string
  | Log_Infof string
  | Log_Warn error string

record World =
  session :: Session
  calls :: "call list"

record Env =
  VersionString :: string
  librespot_ClientId :: string
  UnixMilli :: "call list \<Rightarrow> int"
  xml_Unmarshal :: "bytes \<Rightarrow> error option"
  NewLogin5 :: "call list \<Rightarrow> string \<Rightarrow> string \<Rightarrow> Login5 option"
  GetAccesspoint :: "call list \<Rightarrow> string \<times> error option"
  NewAccesspoint :: "call list \<Rightarrow> string \<Rightarrow> string \<Rightarrow> Accesspoint option \<times> error option"
  ConnectUserPass :: "call list \<Rightarrow> Accesspoint option \<Rightarrow> string \<Rightarrow> string \<Rightarrow> error option"
  ConnectBlob :: "call list \<Rightarrow> Accesspoint option \<Rightarrow> string \<Rightarrow> bytes \<Rightarrow> error option"
  Username :: "call list \<Rightarrow> Accesspoint option \<Rightarrow> string"
  StoredCredentials :: "call list \<Rightarrow> Accesspoint option \<Rightarrow> bytes"
  Login :: "call list \<Rightarrow> Login5 option \<Rightarrow> string \<Rightarrow> bytes \<Rightarrow> error option"
  AccessToken :: "call list \<Rightarrow> Login5 option \<Rightarrow> string"
  GetSpclient :: "call list \<Rightarrow> string \<times> error option"
  NewSpclient :: "call list \<Rightarrow> string \<Rightarrow> string \<Rightarrow> string \<Rightarrow> string \<Rightarrow> Spclient option \<times> error option"
  GetDealer :: "call list \<Rightarrow> string \<times> error option"
  NewDealer :: "call list \<Rightarrow> string \<Rightarrow> string \<Rightarrow> Dealer option \<times> error option"
  PutConnectState :: "call list \<Rightarrow> Spclient option \<Rightarrow> string \<Rightarrow> PutStateRequest \<Rightarrow> error option"

definition emit :: "call \<Rightarrow> World \<Rightarrow> World" where
  "emit c w = w\<lparr>calls := calls w @ [c]\<rparr>"

text \<open>\<^verbatim>\<open>strings.HasPrefix(s, p)\<close>.\<close>

definition HasPrefix :: "string \<Rightarrow> string \<Rightarrow> bool" where
  "HasPrefix s p = prefix p s"

text \<open>Reading a Go map: a key that is absent reads as the zero value, the empty string.\<close>

definition index_map :: "(string \<rightharpoonup> string) \<Rightarrow> string \<Rightarrow> string" where
  "index_map m k = (case m k of None \<Rightarrow> [] | Some v \<Rightarrow> v)"

subsection \<open>handleAccesspointPacket\<close>

definition handleAccesspointPacket :: "Env \<Rightarrow> PacketType \<Rightarrow> bytes \<Rightarrow> error option" where
  "handleAccesspointPacket env pktType payload =
     (case pktType of
        PacketTypeProductInfo \<Rightarrow>
          (case xml_Unmarshal env payload of
             Some err \<Rightarrow> Some (Errorf ''failed umarshalling ProductInfo'' err)
           | None \<Rightarrow> None)
      | PacketTypeOther _ \<Rightarrow> None)"

subsection \<open>Close\<close>

text \<open>
  \<^verbatim>\<open>s.stop <- struct{}{}\<close> is a plain send: it completes when the channel has a free
  slot and blocks otherwise (on a full buffer, and on a nil channel).  The only receiver
  of the channel is the select of \<open>Run\<close>.
\<close>

definition Close :: "World \<Rightarrow> unit outcome \<times> World" where
  "Close w =
     (case stop (session w) of
        None \<Rightarrow> (Blocks, w)
      | Some (Chan c n) \<Rightarrow>
          if n < c then
            (let w1 = emit Send_stop (w\<lparr>session := (session w)\<lparr>stop := Some (Chan c (n + 1))\<rparr>\<rparr>);
                 w2 = emit (Call_Dealer_Close (dealer (session w1))) w1;
                 w3 = emit (Call_Accesspoint_Close (ap (session w2))) w2
             in (Returns (), w3))
          else (Blocks, w))"

subsection \<open>handleDealerMessage\<close>

definition handleDealerMessage :: "Env \<Rightarrow> World \<Rightarrow> Message \<Rightarrow> error option outcome \<times> World" where
  "handleDealerMessage env w msg =
     (if HasPrefix (Uri msg) ''hm://pusher/v1/connections/'' then
        (let w1 = w\<lparr>session := (session w)\<lparr>spotConnId := index_map (Headers msg) ''Spotify-Connection-Id''\<rparr>\<rparr>;
             w2 = emit (Log_Debugf (''received connection id: '' @ spotConnId (session w1))) w1;
             req = \<lparr>ClientSideTimestamp = word_of_int (UnixMilli env (calls w2)),
                    MemberType_of = MemberType_CONNECT_STATE,
                    PutStateReason_of = PutStateReason_NEW_DEVICE,
                    Device_of = \<lparr>
                      DeviceInfo_of = \<lparr>
                        CanPlay = True,
                        Volume = 0,
                        Name = deviceName (app (session w2)),
                        DeviceId = deviceId (app (session w2)),
                        DeviceType = deviceType (app (session w2)),
                        DeviceSoftwareVersion = VersionString env,
                        ClientId = librespot_ClientId env,
                        SpircVersion = ''3.2.6'',
                        Capabilities_of = \<lparr>
                          CanBePlayer = True,
                          RestrictToLocal = False,
                          GaiaEqConnectId = True,
                          SupportsLogout = True,
                          IsObservable = True,
                          VolumeSteps_of = VolumeSteps,
                          SupportedTypes = [''audio/track''],
                          CommandAcks = True,
                          SupportsRename = False,
                          Hidden = False,
                          DisableVolume = False,
                          ConnectDisabled = False,
                          SupportsPlaylistV2 = True,
                          IsControllable = True,
                          SupportsExternalEpisodes = False,
                          SupportsSetBackendMetadata = False,
                          SupportsTransferCommand = True,
                          SupportsCommandRequest = True,
                          IsVoiceEnabled = False,
                          NeedsFullPlayerState = False,
                          SupportsGzipPushes = True,
                          SupportsSetOptionsCommand = False,
                          SupportsHifi = None,
                          ConnectCapabilities = []\<rparr>\<rparr>,
                      PlayerState_of = \<lparr>IsSystemInitiated = True\<rparr>\<rparr>,
                    IsActive = False\<rparr>;
             err = PutConnectState env (calls w2) (sp (session w2)) (spotConnId (session w2)) req;
             w3 = emit (Call_PutConnectState (sp (session w2)) (spotConnId (session w2)) req err) w2
         in case err of
              Some e \<Rightarrow> (Returns (Some (Errorf ''failed initial state put'' e)), w3)
            | None \<Rightarrow> (Returns None, w3))
      else if HasPrefix (Uri msg) ''hm://connect-state/v1/connect/volume'' then
        (Returns None, w)
      else if HasPrefix (Uri msg) ''hm://connect-state/v1/connect/logout'' then
        (let w1 = emit (Log_Infof (''logging out from '' @ Username env (calls w) (ap (session w)))) w
         in case Close w1 of
              (Returns _, w2) \<Rightarrow> (Returns None, w2)
            | (Panics p, w2) \<Rightarrow> (Panics p, w2)
            | (Blocks, w2) \<Rightarrow> (Blocks, w2))
      else if HasPrefix (Uri msg) ''hm://connect-state/v1/cluster'' then
        (Returns None, w)
      else (Returns None, w))"

subsection \<open>Run\<close>

text \<open>
  The loop of \<^verbatim>\<open>Run\<close> is driven by the cases its \<^verbatim>\<open>select\<close> takes, one per iteration:
  the stop channel, a packet from the Accesspoint stream, or a message from the Dealer
  stream.  A select takes any one of the cases that can proceed, without priority; the
  stop case can proceed only when the channel holds a value.  \<open>Run_loop\<close> runs the loop
  through a list of such choices and says where the loop is after them: still waiting in
  its select (\<open>Looping\<close>), returned (\<open>Returned\<close>, whatever choices were left), blocked
  inside a handler (\<open>Blocked\<close>), or asked for a stop case that could not proceed
  (\<open>Not_ready\<close>: the list is not a run of the program).
\<close>

datatype select_case = Case_stop | Case_apRecv Packet | Case_msgRecv Message

datatype run_state = Looping | Returned | Blocked | Panicked string | Not_ready

fun Run_loop :: "Env \<Rightarrow> select_case list \<Rightarrow> World \<Rightarrow> run_state \<times> World" where
  "Run_loop env [] w = (Looping, w)"
| "Run_loop env (Case_stop # cs) w =
     (case stop (session w) of
        Some (Chan c (Suc n)) \<Rightarrow> (Returned, w\<lparr>session := (session w)\<lparr>stop := Some (Chan c n)\<rparr>\<rparr>)
      | _ \<Rightarrow> (Not_ready, w))"
| "Run_loop env (Case_apRecv pkt # cs) w =
     (case handleAccesspointPacket env (Type pkt) (Payload_of pkt) of
        Some err \<Rightarrow> Run_loop env cs (emit (Log_Warn err ''failed handling accesspoint packet'') w)
      | None \<Rightarrow> Run_loop env cs w)"
| "Run_loop env (Case_msgRecv msg # cs) w =
     (case handleDealerMessage env w msg of
        (Returns (Some err), w') \<Rightarrow> Run_loop env cs (emit (Log_Warn err ''failed handling dealer message'') w')
      | (Returns None, w') \<Rightarrow> Run_loop env cs w'
      | (Panics p, w') \<Rightarrow> (Panicked p, w')
      | (Blocks, w') \<Rightarrow> (Blocked, w'))"

definition Run :: "Env \<Rightarrow> select_case list \<Rightarrow> World \<Rightarrow> run_state \<times> World" where
  "Run env cs w =
     (let w1 = emit (Call_Receive (ap (session w)) PacketTypeProductInfo) w;
          w2 = emit (Call_ReceiveMessage (dealer (session w1))
                 [''hm://pusher/v1/connections/'', ''hm://connect-state/v1/'']) w1
      in Run_loop env cs w2)"

subsection \<open>Connect\<close>

text \<open>
  \<^verbatim>\<open>Connect\<close> is one chain of calls with an early return after each; it is written
  here in the four blocks the source marks with its comments (accesspoint and
  credentials, login5, spclient, dealer), each ending in the next.
\<close>

definition Connect_dealer :: "Env \<Rightarrow> World \<Rightarrow> error option outcome \<times> World" where
  "Connect_dealer env w =
     (let (dealerAddr, err) = GetDealer env (calls w);
          w1 = emit (Call_GetDealer dealerAddr err) w
      in case err of
           Some e \<Rightarrow> (Returns (Some (Errorf ''failed getting dealer from resolver'' e)), w1)
         | None \<Rightarrow>
             (let tok = AccessToken env (calls w1) (login5 (session w1));
                  (d, err) = NewDealer env (calls w1) dealerAddr tok;
                  w2 = emit (Call_NewDealer dealerAddr tok d err)
                         (w1\<lparr>session := (session w1)\<lparr>dealer := d\<rparr>\<rparr>)
              in case err of
                   Some e \<Rightarrow> (Returns (Some (Errorf ''failed connecting to dealer'' e)), w2)
                 | None \<Rightarrow> (Returns None, w2)))"

definition Connect_spclient :: "Env \<Rightarrow> World \<Rightarrow> error option outcome \<times> World" where
  "Connect_spclient env w =
     (let (spAddr, err) = GetSpclient env (calls w);
          w1 = emit (Call_GetSpclient spAddr err) w
      in case err of
           Some e \<Rightarrow> (Returns (Some (Errorf ''failed getting spclient from resolver'' e)), w1)
         | None \<Rightarrow>
             (let tok = AccessToken env (calls w1) (login5 (session w1));
                  (c, err) = NewSpclient env (calls w1) spAddr tok
                               (deviceId (app (session w1))) (clientToken (app (session w1)));
                  w2 = emit (Call_NewSpclient spAddr tok
                               (deviceId (app (session w1))) (clientToken (app (session w1))) c err)
                         (w1\<lparr>session := (session w1)\<lparr>sp := c\<rparr>\<rparr>)
              in case err of
                   Some e \<Rightarrow> (Returns (Some (Errorf ''failed initializing spclient'' e)), w2)
                 | None \<Rightarrow> Connect_dealer env w2))"

definition Connect_login5 :: "Env \<Rightarrow> World \<Rightarrow> error option outcome \<times> World" where
  "Connect_login5 env w =
     (let user = Username env (calls w) (ap (session w));
          data = StoredCredentials env (calls w) (ap (session w));
          err = Login env (calls w) (login5 (session w)) user data;
          w1 = emit (Call_Login (login5 (session w)) user data err) w
      in case err of
           Some e \<Rightarrow> (Returns (Some (Errorf ''failed authenticating with login5'' e)), w1)
         | None \<Rightarrow> Connect_spclient env w1)"

definition Connect :: "Env \<Rightarrow> World \<Rightarrow> SessionCredentials \<Rightarrow> error option outcome \<times> World" where
  "Connect env w creds =
     (let w1 = w\<lparr>session := (session w)\<lparr>stop := Some (Chan 1 0)\<rparr>\<rparr>;
          l = NewLogin5 env (calls w1) (deviceId (app (session w1))) (clientToken (app (session w1)));
          w2 = emit (Call_NewLogin5 (deviceId (app (session w1))) (clientToken (app (session w1))) l)
                 (w1\<lparr>session := (session w1)\<lparr>login5 := l\<rparr>\<rparr>);
          (apAddr, err) = GetAccesspoint env (calls w2);
          w3 = emit (Call_GetAccesspoint apAddr err) w2
      in case err of
           Some e \<Rightarrow> (Returns (Some (Errorf ''failed getting accesspoint from resolver'' e)), w3)
         | None \<Rightarrow>
             (let (a, err) = NewAccesspoint env (calls w3) apAddr (deviceId (app (session w3)));
                  w4 = emit (Call_NewAccesspoint apAddr (deviceId (app (session w3))) a err)
                         (w3\<lparr>session := (session w3)\<lparr>ap := a\<rparr>\<rparr>)
              in case err of
                   Some e \<Rightarrow> (Returns (Some (Errorf ''failed initializing accesspoint'' e)), w4)
                 | None \<Rightarrow>
                     (case creds of
                        SessionUserPassCredentials username password \<Rightarrow>
                          (let err = ConnectUserPass env (calls w4) (ap (session w4)) username password;
                               w5 = emit (Call_ConnectUserPass (ap (session w4)) username password err) w4
                           in case err of
                                Some e \<Rightarrow>
                                  (Returns (Some (Errorf
                                     ''failed authenticating accesspoint with username and password'' e)), w5)
                              | None \<Rightarrow> Connect_login5 env w5)
                      | SessionBlobCredentials username blob \<Rightarrow>
                          (let err = ConnectBlob env (calls w4) (ap (session w4)) username blob;
                               w5 = emit (Call_ConnectBlob (ap (session w4)) username blob err) w4
                           in case err of
                                Some e \<Rightarrow>
                                  (Returns (Some (Errorf ''failed authenticating accesspoint with blob'' e)), w5)
                              | None \<Rightarrow> Connect_login5 env w5)
                      | OtherCredentials \<Rightarrow> (Panics ''unknown credentials'', w4))))"

subsection \<open>Reading the list of calls\<close>

text \<open>The requests of the \<^verbatim>\<open>PutConnectState\<close> calls in a list of calls, in order.\<close>

fun put_requests :: "call list \<Rightarrow> PutStateRequest list" where
  "put_requests [] = []"
| "put_requests (Call_PutConnectState c i r e # cs) = r # put_requests cs"
| "put_requests (_ # cs) = put_requests cs"


text \<open>The calls a world \<open>w'\<close> has beyond those of an earlier world \<open>w\<close>.\<close>

definition calls_since :: "World \<Rightarrow> World \<Rightarrow> call list" where
  "calls_since w w' = drop (length (calls w)) (calls w')"

text \<open>
  The fallible stages of \<^verbatim>\<open>Connect\<close>, read off the calls that perform them: each such
  call gives the stage, the message \<^verbatim>\<open>Connect\<close> wraps its failure in, and the error it
  returned (\<open>None\<close> for nil).  The construction of Login5 returns no error and is no stage.
\<close>

datatype stage =
    Resolve_Accesspoint | Construct_Accesspoint | Authenticate | Exchange_Login5
  | Resolve_Spclient | Construct_Spclient | Resolve_Dealer | Construct_Dealer

datatype step = Step (step_stage: stage) (step_message: string) (step_error: "error option")

fun step_of :: "call \<Rightarrow> step option" where
  "step_of (Call_GetAccesspoint a e) =
     Some (Step Resolve_Accesspoint ''failed getting accesspoint from resolver'' e)"
| "step_of (Call_NewAccesspoint a d p e) =
     Some (Step Construct_Accesspoint ''failed initializing accesspoint'' e)"
| "step_of (Call_ConnectUserPass a u p e) =
     Some (Step Authenticate ''failed authenticating accesspoint with username and password'' e)"
| "step_of (Call_ConnectBlob a u b e) =
     Some (Step Authenticate ''failed authenticating accesspoint with blob'' e)"
| "step_of (Call_Login l u d e) =
     Some (Step Exchange_Login5 ''failed authenticating with login5'' e)"
| "step_of (Call_GetSpclient a e) =
     Some (Step Resolve_Spclient ''failed getting spclient from resolver'' e)"
| "step_of (Call_NewSpclient a t d c p e) =
     Some (Step Construct_Spclient ''failed initializing spclient'' e)"
| "step_of (Call_GetDealer a e) =
     Some (Step Resolve_Dealer ''failed getting dealer from resolver'' e)"
| "step_of (Call_NewDealer a t p e) =
     Some (Step Construct_Dealer ''failed connecting to dealer'' e)"
| "step_of _ = None"

definition steps :: "call list \<Rightarrow> step list" where
  "steps cs = List.map_filter step_of cs"

text \<open>The two authentication calls of the Accesspoint.\<close>

fun is_auth_call :: "call \<Rightarrow> bool" where
  "is_auth_call (Call_ConnectUserPass a u p e) = True"
| "is_auth_call (Call_ConnectBlob a u b e) = True"
| "is_auth_call _ = False"

text \<open>
  An authentication call agrees with the credentials when it is the call for their type
  and carries their fields; every other call agrees with any credentials.
\<close>

fun auth_call_for :: "SessionCredentials \<Rightarrow> call \<Rightarrow> bool" where
  "auth_call_for creds (Call_ConnectUserPass a u p e) = (creds = SessionUserPassCredentials u p)"
| "auth_call_for creds (Call_ConnectBlob a u b e) = (creds = SessionBlobCredentials u b)"
| "auth_call_for creds _ = True"

text \<open>
  The arguments of the calls of \<^verbatim>\<open>Connect\<close>, read off a call made after the calls \<open>h\<close>
  on a session that ends as \<open>s\<close>: the device id and client token are those of the app;
  the Login5 and the Accesspoint constructed are the ones the session keeps; an address
  handed to a constructor is the one the resolver returned in the call just before; the
  authentication is made on the session's Accesspoint; \<^verbatim>\<open>Login\<close> is made on the
  session's Login5 with the username and the stored credentials of the session's
  Accesspoint; the Spclient and the Dealer are constructed with the access token of the
  session's Login5; and what each call returned is what the collaborator answers.
\<close>

fun call_args_ok :: "Env \<Rightarrow> Session \<Rightarrow> call list \<Rightarrow> call \<Rightarrow> bool" where
  "call_args_ok env s h (Call_NewLogin5 dev ct l) =
     (dev = deviceId (app s) \<and> ct = clientToken (app s) \<and> l = login5 s \<and>
      l = NewLogin5 env h dev ct)"
| "call_args_ok env s h (Call_GetAccesspoint addr e) = ((addr, e) = GetAccesspoint env h)"
| "call_args_ok env s h (Call_NewAccesspoint addr dev a e) =
     (h \<noteq> [] \<and> last h = Call_GetAccesspoint addr None \<and> dev = deviceId (app s) \<and>
      a = ap s \<and> (a, e) = NewAccesspoint env h addr dev)"
| "call_args_ok env s h (Call_ConnectUserPass a u p e) =
     (a = ap s \<and> e = ConnectUserPass env h a u p)"
| "call_args_ok env s h (Call_ConnectBlob a u b e) =
     (a = ap s \<and> e = ConnectBlob env h a u b)"
| "call_args_ok env s h (Call_Login l u d e) =
     (l = login5 s \<and> u = Username env h (ap s) \<and> d = StoredCredentials env h (ap s) \<and>
      e = Login env h l u d)"
| "call_args_ok env s h (Call_GetSpclient addr e) = ((addr, e) = GetSpclient env h)"
| "call_args_ok env s h (Call_NewSpclient addr tok dev ct c e) =
     (h \<noteq> [] \<and> last h = Call_GetSpclient addr None \<and>
      tok = AccessToken env h (login5 s) \<and>
      dev = deviceId (app s) \<and> ct = clientToken (app s) \<and>
      (c, e) = NewSpclient env h addr tok dev ct)"
| "call_args_ok env s h (Call_GetDealer addr e) = ((addr, e) = GetDealer env h)"
| "call_args_ok env s h (Call_NewDealer addr tok d e) =
     (h \<noteq> [] \<and> last h = Call_GetDealer addr None \<and>
      tok = AccessToken env h (login5 s) \<and> (d, e) = NewDealer env h addr tok)"
| "call_args_ok env s h _ = True"

text \<open>Every call of a list has such arguments, each after the calls before it.\<close>

fun calls_args_ok :: "Env \<Rightarrow> Session \<Rightarrow> call list \<Rightarrow> call list \<Rightarrow> bool" where
  "calls_args_ok env s h [] = True"
| "calls_args_ok env s h (c # cs) = (call_args_ok env s h c \<and> calls_args_ok env s (h @ [c]) cs)"

text \<open>
  A run of steps through the stages \<open>expected\<close> that stops at the first failure, with the
  result it gives: every step but the last succeeded; the nil error after all the stages
  succeeded; the failure of the last step, wrapped in its message, otherwise.
\<close>

definition fail_fast :: "stage list \<Rightarrow> error option outcome \<Rightarrow> step list \<Rightarrow> bool" where
  "fail_fast expected r ss \<longleftrightarrow>
     map step_stage ss = take (length ss) expected \<and>
     list_all (\<lambda>s. step_error s = None) (butlast ss) \<and>
     (case r of
        Returns None \<Rightarrow> length ss = length expected \<and> list_all (\<lambda>s. step_error s = None) ss
      | Returns (Some err) \<Rightarrow>
          (case step_error (last ss) of
             None \<Rightarrow> False
           | Some e \<Rightarrow> ss \<noteq> [] \<and> err = Errorf (step_message (last ss)) e)
      | Panics p \<Rightarrow> False
      | Blocks \<Rightarrow> False)"

subsection \<open>Example environments and sessions\<close>

definition env_ok :: Env where
  "env_ok = \<lparr>
     VersionString = ''go-librespot 0.0.1'',
     librespot_ClientId = ''65b708073fc0480ea92a077233ca87bd'',
     UnixMilli = (\<lambda>_. 1700000000000),
     xml_Unmarshal = (\<lambda>_. None),
     NewLogin5 = (\<lambda>_ _ _. Some (Login5_ref 1)),
     GetAccesspoint = (\<lambda>_. (''ap.example:4070'', None)),
     NewAccesspoint = (\<lambda>_ _ _. (Some (Accesspoint_ref 2), None)),
     ConnectUserPass = (\<lambda>_ _ _ _. None),
     ConnectBlob = (\<lambda>_ _ _ _. None),
     Username = (\<lambda>_ _. ''alice''),
     StoredCredentials = (\<lambda>_ _. [1, 2, 3]),
     Login = (\<lambda>_ _ _ _. None),
     AccessToken = (\<lambda>_ _. ''token''),
     GetSpclient = (\<lambda>_. (''spclient.example:443'', None)),
     NewSpclient = (\<lambda>_ _ _ _ _. (Some (Spclient_ref 3), None)),
     GetDealer = (\<lambda>_. (''dealer.example:443'', None)),
     NewDealer = (\<lambda>_ _ _. (Some (Dealer_ref 4), None)),
     PutConnectState = (\<lambda>_ _ _ _. None)\<rparr>"

definition env_failing :: Env where
  "env_failing = env_ok\<lparr>
     xml_Unmarshal := (\<lambda>_. Some (Error ''EOF'')),
     Login := (\<lambda>_ _ _ _. Some (Error ''bad credentials'')),
     PutConnectState := (\<lambda>_ _ _ _. Some (Error ''status 500''))\<rparr>"

definition app0 :: App where
  "app0 = \<lparr>deviceName = ''speaker'', deviceId = ''0123abcd'', deviceType = 1, clientToken = ''ct''\<rparr>"

text \<open>A session before \<^verbatim>\<open>Connect\<close>, and one as a successful \<^verbatim>\<open>Connect\<close> leaves it.\<close>

definition world_idle :: World where
  "world_idle = \<lparr>
     session = \<lparr>app = app0, stop = None, ap = None, login5 = None, sp = None, dealer = None,
                spotConnId = []\<rparr>,
     calls = []\<rparr>"

definition world_connected :: World where
  "world_connected = \<lparr>
     session = \<lparr>app = app0, stop = Some (Chan 1 0), ap = Some (Accesspoint_ref 2),
                login5 = Some (Login5_ref 1), sp = Some (Spclient_ref 3),
                dealer = Some (Dealer_ref 4), spotConnId = []\<rparr>,
     calls = []\<rparr>"

definition msg_connections :: Message where
  "msg_connections = \<lparr>Uri = ''hm://pusher/v1/connections/x'',
     Headers = [''Spotify-Connection-Id'' \<mapsto> ''abc123''], Payload = []\<rparr>"

definition msg_connections_no_header :: Message where
  "msg_connections_no_header = \<lparr>Uri = ''hm://pusher/v1/connections/y'',
     Headers = Map.empty, Payload = []\<rparr>"

definition msg_logout :: Message where
  "msg_logout = \<lparr>Uri = ''hm://connect-state/v1/connect/logout'', Headers = Map.empty, Payload = []\<rparr>"

definition msg_other :: Message where
  "msg_other = \<lparr>Uri = ''hm://connect-state/v1/player/command'', Headers = Map.empty, Payload = []\<rparr>"


section \<open>Properties\<close>

subsection \<open>Auxiliary facts\<close>

lemma calls_emit: "calls (emit c w) = calls w @ [c]"
  by (simp add: emit_def)

lemma session_emit: "session (emit c w) = session w"
  by (simp add: emit_def)

lemma logout_not_connections:
  "HasPrefix u ''hm://connect-state/v1/connect/logout'' \<Longrightarrow>
   \<not> HasPrefix u ''hm://pusher/v1/connections/''"
  by (auto simp: HasPrefix_def prefix_def)

lemma logout_not_volume:
  "HasPrefix u ''hm://connect-state/v1/connect/logout'' \<Longrightarrow>
   \<not> HasPrefix u ''hm://connect-state/v1/connect/volume''"
  by (auto simp: HasPrefix_def prefix_def)

lemma put_requests_append: "put_requests (xs @ ys) = put_requests xs @ put_requests ys"
  by (induction xs rule: put_requests.induct) simp_all

lemma Close_free:
  "stop (session w) = Some (Chan c n) \<Longrightarrow> n < c \<Longrightarrow>
   Close w = (Returns (), w\<lparr>session := (session w)\<lparr>stop := Some (Chan c (Suc n))\<rparr>,
       calls := calls w @ [Send_stop, Call_Dealer_Close (dealer (session w)),
                           Call_Accesspoint_Close (ap (session w))]\<rparr>)"
  by (simp add: Close_def emit_def)

lemma Close_full:
  "stop (session w) = Some (Chan c n) \<Longrightarrow> c \<le> n \<Longrightarrow> Close w = (Blocks, w)"
  by (simp add: Close_def)

lemma Close_nil:
  "stop (session w) = None \<Longrightarrow> Close w = (Blocks, w)"
  by (simp add: Close_def)

subsection \<open>The connections message\<close>

text \<open>
  C1.  A Dealer message whose Uri starts with \<^verbatim>\<open>hm://pusher/v1/connections/\<close> makes
  \<open>handleDealerMessage\<close> store the value of the message's \<^verbatim>\<open>Spotify-Connection-Id\<close>
  header in \<open>spotConnId\<close> and then make exactly two calls: the debug log line and one
  \<^verbatim>\<open>PutConnectState\<close>, on the session's Spclient, with the stored connection id and a
  request whose reason is \<open>NEW_DEVICE\<close> and whose \<open>IsActive\<close> is false.  So the requests
  issued while handling the message are that one request.
\<close>

theorem handleDealerMessage_connections:
  assumes "HasPrefix (Uri msg) ''hm://pusher/v1/connections/''"
  shows "\<exists>req err.
     spotConnId (session (snd (handleDealerMessage env w msg)))
       = index_map (Headers msg) ''Spotify-Connection-Id'' \<and>
     calls (snd (handleDealerMessage env w msg))
       = calls w @
         [Log_Debugf (''received connection id: '' @ index_map (Headers msg) ''Spotify-Connection-Id''),
          Call_PutConnectState (sp (session w))
            (index_map (Headers msg) ''Spotify-Connection-Id'') req err] \<and>
     PutStateReason_of req = PutStateReason_NEW_DEVICE \<and> IsActive req = False \<and>
     put_requests (calls_since w (snd (handleDealerMessage env w msg))) = [req]"
  using assms
  by (simp add: handleDealerMessage_def Let_def calls_emit session_emit calls_since_def
      split: option.split)

theorem handleDealerMessage_connections_witness:
  "HasPrefix (Uri msg_connections) ''hm://pusher/v1/connections/'' \<and>
   index_map (Headers msg_connections) ''Spotify-Connection-Id'' = ''abc123'' \<and>
   (\<exists>req err.
     spotConnId (session (snd (handleDealerMessage env_ok world_connected msg_connections)))
       = ''abc123'' \<and>
     calls (snd (handleDealerMessage env_ok world_connected msg_connections))
       = calls world_connected @
         [Log_Debugf ''received connection id: abc123'',
          Call_PutConnectState (sp (session world_connected)) ''abc123'' req err] \<and>
     PutStateReason_of req = PutStateReason_NEW_DEVICE \<and> IsActive req = False \<and>
     put_requests (calls_since world_connected
        (snd (handleDealerMessage env_ok world_connected msg_connections))) = [req])"
proof -
  have p: "HasPrefix (Uri msg_connections) ''hm://pusher/v1/connections/''"
    by (simp add: msg_connections_def HasPrefix_def)
  have h: "index_map (Headers msg_connections) ''Spotify-Connection-Id'' = ''abc123''"
    by (simp add: msg_connections_def index_map_def)
  show ?thesis
    using p h handleDealerMessage_connections [OF p, of env_ok world_connected]
    by simp
qed

subsection \<open>Messages with no handler\<close>

text \<open>
  C6.  A Dealer message whose Uri starts with none of the four prefixes the handler
  knows leaves the world as it was (the session, so the stored connection id, and the
  list of calls, so no \<^verbatim>\<open>PutConnectState\<close> and no \<^verbatim>\<open>Close\<close>), and the handler returns the
  nil error.
\<close>

theorem handleDealerMessage_unknown_uri:
  assumes "\<not> HasPrefix (Uri msg) ''hm://pusher/v1/connections/''"
    and "\<not> HasPrefix (Uri msg) ''hm://connect-state/v1/connect/volume''"
    and "\<not> HasPrefix (Uri msg) ''hm://connect-state/v1/connect/logout''"
    and "\<not> HasPrefix (Uri msg) ''hm://connect-state/v1/cluster''"
  shows "handleDealerMessage env w msg = (Returns None, w)"
  using assms by (simp add: handleDealerMessage_def)

theorem handleDealerMessage_unknown_uri_witness:
  "\<not> HasPrefix (Uri msg_other) ''hm://pusher/v1/connections/'' \<and>
   \<not> HasPrefix (Uri msg_other) ''hm://connect-state/v1/connect/volume'' \<and>
   \<not> HasPrefix (Uri msg_other) ''hm://connect-state/v1/connect/logout'' \<and>
   \<not> HasPrefix (Uri msg_other) ''hm://connect-state/v1/cluster'' \<and>
   handleDealerMessage env_ok world_connected msg_other = (Returns None, world_connected)"
  using handleDealerMessage_unknown_uri [of msg_other env_ok world_connected]
  by (simp add: msg_other_def HasPrefix_def)

subsection \<open>A connections message without the header, and repeated connections messages\<close>

lemma connections_handler_returns:
  assumes "HasPrefix (Uri m) ''hm://pusher/v1/connections/''"
  shows "\<exists>e w'. handleDealerMessage env w m = (Returns e, w') \<and>
     spotConnId (session w') = index_map (Headers m) ''Spotify-Connection-Id''"
  using assms
  by (simp add: handleDealerMessage_def Let_def session_emit split: option.split)

lemma Run_loop_connections_step:
  assumes "HasPrefix (Uri m) ''hm://pusher/v1/connections/''"
  shows "\<exists>w'. Run_loop env (Case_msgRecv m # cs) w = Run_loop env cs w' \<and>
     spotConnId (session w') = index_map (Headers m) ''Spotify-Connection-Id''"
proof -
  from connections_handler_returns [OF assms, of env w]
  obtain e w' where h: "handleDealerMessage env w m = (Returns e, w')"
    and s: "spotConnId (session w') = index_map (Headers m) ''Spotify-Connection-Id''"
    by blast
  show ?thesis
  proof (cases e)
    case None
    with h have "Run_loop env (Case_msgRecv m # cs) w = Run_loop env cs w'"
      by simp
    with s show ?thesis by blast
  next
    case (Some err)
    with h have "Run_loop env (Case_msgRecv m # cs) w
        = Run_loop env cs (emit (Log_Warn err ''failed handling dealer message'') w')"
      by simp
    moreover have "spotConnId (session (emit (Log_Warn err ''failed handling dealer message'') w'))
        = index_map (Headers m) ''Spotify-Connection-Id''"
      using s by (simp add: session_emit)
    ultimately show ?thesis by blast
  qed
qed

text \<open>
  C10.  When the connections message has no \<^verbatim>\<open>Spotify-Connection-Id\<close> header, reading
  the Go map gives the empty string: it is stored as \<open>spotConnId\<close>, and the debug log and
  the \<^verbatim>\<open>PutConnectState\<close> call are still made, with the empty connection id.  And the
  stored id is overwritten by every connections message the loop handles: after two of
  them it is the header value of the second, whatever the first stored.
\<close>

theorem connections_without_header:
  "(HasPrefix (Uri msg) ''hm://pusher/v1/connections/'' \<and>
    Headers msg ''Spotify-Connection-Id'' = None \<longrightarrow>
      spotConnId (session (snd (handleDealerMessage env w msg))) = [] \<and>
      (\<exists>req err. calls_since w (snd (handleDealerMessage env w msg)) =
         [Log_Debugf ''received connection id: '',
          Call_PutConnectState (sp (session w)) [] req err])) \<and>
   (HasPrefix (Uri m1) ''hm://pusher/v1/connections/'' \<and>
    HasPrefix (Uri m2) ''hm://pusher/v1/connections/'' \<longrightarrow>
      spotConnId (session (snd (Run_loop env [Case_msgRecv m1] w)))
        = index_map (Headers m1) ''Spotify-Connection-Id'' \<and>
      spotConnId (session (snd (Run_loop env [Case_msgRecv m1, Case_msgRecv m2] w)))
        = index_map (Headers m2) ''Spotify-Connection-Id'')"
proof (intro conjI impI)
  assume a: "HasPrefix (Uri msg) ''hm://pusher/v1/connections/'' \<and>
    Headers msg ''Spotify-Connection-Id'' = None"
  then show "spotConnId (session (snd (handleDealerMessage env w msg))) = []"
    by (simp add: handleDealerMessage_def Let_def session_emit index_map_def split: option.split)
  from a show "\<exists>req err. calls_since w (snd (handleDealerMessage env w msg)) =
         [Log_Debugf ''received connection id: '',
          Call_PutConnectState (sp (session w)) [] req err]"
    by (simp add: handleDealerMessage_def Let_def session_emit calls_emit calls_since_def
        index_map_def split: option.split)
next
  assume b: "HasPrefix (Uri m1) ''hm://pusher/v1/connections/'' \<and>
    HasPrefix (Uri m2) ''hm://pusher/v1/connections/''"
  from b Run_loop_connections_step [of m1 env "[]" w]
  show "spotConnId (session (snd (Run_loop env [Case_msgRecv m1] w)))
        = index_map (Headers m1) ''Spotify-Connection-Id''"
    by auto
  from b Run_loop_connections_step [of m1 env "[Case_msgRecv m2]" w]
  obtain w1 where w1: "Run_loop env [Case_msgRecv m1, Case_msgRecv m2] w
      = Run_loop env [Case_msgRecv m2] w1"
    by auto
  from b Run_loop_connections_step [of m2 env "[]" w1]
  obtain w2 where w2: "Run_loop env [Case_msgRecv m2] w1 = Run_loop env [] w2"
      "spotConnId (session w2) = index_map (Headers m2) ''Spotify-Connection-Id''"
    by auto
  show "spotConnId (session (snd (Run_loop env [Case_msgRecv m1, Case_msgRecv m2] w)))
        = index_map (Headers m2) ''Spotify-Connection-Id''"
    unfolding w1 w2 using w2(2) by simp
qed

theorem connections_without_header_witness:
  "HasPrefix (Uri msg_connections_no_header) ''hm://pusher/v1/connections/'' \<and>
   Headers msg_connections_no_header ''Spotify-Connection-Id'' = None \<and>
   spotConnId (session (snd (handleDealerMessage env_ok world_connected msg_connections_no_header))) = [] \<and>
   (\<exists>req err. calls_since world_connected
        (snd (handleDealerMessage env_ok world_connected msg_connections_no_header)) =
         [Log_Debugf ''received connection id: '',
          Call_PutConnectState (sp (session world_connected)) [] req err]) \<and>
   HasPrefix (Uri msg_connections) ''hm://pusher/v1/connections/'' \<and>
   spotConnId (session (snd (Run_loop env_ok [Case_msgRecv msg_connections] world_connected)))
     = ''abc123'' \<and>
   spotConnId (session (snd (Run_loop env_ok
      [Case_msgRecv msg_connections, Case_msgRecv msg_connections_no_header] world_connected))) = []"
proof -
  have p1: "HasPrefix (Uri msg_connections_no_header) ''hm://pusher/v1/connections/''"
    by (simp add: msg_connections_no_header_def HasPrefix_def)
  have p2: "Headers msg_connections_no_header ''Spotify-Connection-Id'' = None"
    by (simp add: msg_connections_no_header_def)
  have p3: "HasPrefix (Uri msg_connections) ''hm://pusher/v1/connections/''"
    by (simp add: msg_connections_def HasPrefix_def)
  have h1: "index_map (Headers msg_connections) ''Spotify-Connection-Id'' = ''abc123''"
    by (simp add: msg_connections_def index_map_def)
  have h2: "index_map (Headers msg_connections_no_header) ''Spotify-Connection-Id'' = []"
    by (simp add: msg_connections_no_header_def index_map_def)
  show ?thesis
    using p1 p2 p3 h1 h2
      connections_without_header
        [of msg_connections_no_header env_ok world_connected msg_connections msg_connections_no_header]
    by simp
qed

subsection \<open>Close and the stop channel\<close>

lemma handleDealerMessage_logout_free:
  assumes "HasPrefix (Uri msg) ''hm://connect-state/v1/connect/logout''"
    and "stop (session w) = Some (Chan c n)" and "n < c"
  shows "handleDealerMessage env w msg =
     (Returns None, w\<lparr>session := (session w)\<lparr>stop := Some (Chan c (Suc n))\<rparr>,
        calls := calls w @ [Log_Infof (''logging out from '' @ Username env (calls w) (ap (session w))),
                            Send_stop, Call_Dealer_Close (dealer (session w)),
                            Call_Accesspoint_Close (ap (session w))]\<rparr>)"
proof -
  let ?w1 = "emit (Log_Infof (''logging out from '' @ Username env (calls w) (ap (session w)))) w"
  have "stop (session ?w1) = Some (Chan c n)"
    using assms(2) by (simp add: session_emit)
  from Close_free [OF this assms(3)]
  have "Close ?w1 = (Returns (), ?w1\<lparr>session := (session ?w1)\<lparr>stop := Some (Chan c (Suc n))\<rparr>,
       calls := calls ?w1 @ [Send_stop, Call_Dealer_Close (dealer (session ?w1)),
                           Call_Accesspoint_Close (ap (session ?w1))]\<rparr>)" .
  then show ?thesis
    using assms(1) logout_not_connections [OF assms(1)] logout_not_volume [OF assms(1)]
    by (simp add: handleDealerMessage_def Let_def emit_def)
qed

lemma handleDealerMessage_logout_full:
  assumes "HasPrefix (Uri msg) ''hm://connect-state/v1/connect/logout''"
    and "stop (session w) = Some (Chan c n)" and "c \<le> n"
  shows "handleDealerMessage env w msg =
     (Blocks, emit (Log_Infof (''logging out from '' @ Username env (calls w) (ap (session w)))) w)"
proof -
  let ?w1 = "emit (Log_Infof (''logging out from '' @ Username env (calls w) (ap (session w)))) w"
  have "stop (session ?w1) = Some (Chan c n)"
    using assms(2) by (simp add: session_emit)
  from Close_full [OF this assms(3)]
  have "Close ?w1 = (Blocks, ?w1)" .
  then show ?thesis
    using assms(1) logout_not_connections [OF assms(1)] logout_not_volume [OF assms(1)]
    by (simp add: handleDealerMessage_def Let_def)
qed

text \<open>
  C8.  An invocation of \<open>Close\<close> does not always reach the teardown: the send on the
  stop channel is a plain send, and on a session whose single slot is taken (here: a
  session that was closed once, with nothing received since) it blocks, and the Dealer
  and the Accesspoint are not closed by that invocation.
\<close>

theorem Close_blocked_no_teardown:
  "fst (Close (snd (Close world_connected))) = Blocks \<and>
   calls_since (snd (Close world_connected)) (snd (Close (snd (Close world_connected)))) = []"
  by (simp add: Close_def world_connected_def emit_def calls_since_def)

text \<open>
  C8, as the code has it.  An invocation of \<open>Close\<close> whose send can proceed (the stop
  channel has a free slot) queues the signal, then closes the Dealer, then closes the
  Accesspoint, with nothing else in between and no condition on either teardown.  An
  invocation whose send cannot proceed (the slot is taken, or the channel is nil) blocks
  at the send with nothing torn down.  And when the select of \<open>Run\<close> takes the stop case,
  \<open>Run\<close> returns having only received the signal: it makes no call, so it closes
  neither the Dealer nor the Accesspoint.
\<close>

theorem Close_order:
  "(stop (session w) = Some (Chan c n) \<and> n < c \<longrightarrow>
      Close w = (Returns (),
        w\<lparr>session := (session w)\<lparr>stop := Some (Chan c (Suc n))\<rparr>,
          calls := calls w @ [Send_stop, Call_Dealer_Close (dealer (session w)),
                              Call_Accesspoint_Close (ap (session w))]\<rparr>)) \<and>
   (stop (session w2) = Some (Chan c2 n2) \<and> c2 \<le> n2 \<longrightarrow> Close w2 = (Blocks, w2)) \<and>
   (stop (session w3) = None \<longrightarrow> Close w3 = (Blocks, w3)) \<and>
   (stop (session w4) = Some (Chan c4 (Suc n4)) \<longrightarrow>
      Run_loop env (Case_stop # cs) w4 =
        (Returned, w4\<lparr>session := (session w4)\<lparr>stop := Some (Chan c4 n4)\<rparr>\<rparr>))"
  by (simp add: Close_free Close_full Close_nil)

theorem Close_order_witness:
  "stop (session world_connected) = Some (Chan 1 0) \<and> (0::nat) < 1 \<and>
   Close world_connected = (Returns (),
     world_connected\<lparr>session := (session world_connected)\<lparr>stop := Some (Chan 1 (Suc 0))\<rparr>,
       calls := calls world_connected @
         [Send_stop, Call_Dealer_Close (dealer (session world_connected)),
          Call_Accesspoint_Close (ap (session world_connected))]\<rparr>) \<and>
   stop (session (snd (Close world_connected))) = Some (Chan 1 (Suc 0)) \<and> (1::nat) \<le> Suc 0 \<and>
   Close (snd (Close world_connected)) = (Blocks, snd (Close world_connected)) \<and>
   stop (session world_idle) = None \<and>
   Close world_idle = (Blocks, world_idle) \<and>
   Run_loop env_ok [Case_stop] (snd (Close world_connected)) =
     (Returned, (snd (Close world_connected))\<lparr>session :=
        (session (snd (Close world_connected)))\<lparr>stop := Some (Chan 1 0)\<rparr>\<rparr>)"
proof -
  have s0: "stop (session world_connected) = Some (Chan 1 0)"
    by (simp add: world_connected_def)
  have s1: "stop (session (snd (Close world_connected))) = Some (Chan 1 (Suc 0))"
    by (simp add: Close_def world_connected_def emit_def)
  have s2: "stop (session world_idle) = None"
    by (simp add: world_idle_def)
  have n: "(0::nat) < 1" "(1::nat) \<le> Suc 0"
    by simp_all
  show ?thesis
    using s0 s1 s2 n
      Close_order [of world_connected 1 0 "snd (Close world_connected)" 1 "Suc 0" world_idle
        "snd (Close world_connected)" 1 0 env_ok "[]"]
    by blast
qed

text \<open>
  C2.  A second \<open>Close\<close> right after the first does not complete: the first left its
  signal in the single slot of the stop channel, and the send of the second blocks.
\<close>

theorem second_Close_blocks:
  "fst (Close world_connected) = Returns () \<and>
   fst (Close (snd (Close world_connected))) = Blocks"
  by (simp add: Close_def world_connected_def emit_def)

text \<open>
  C2, as the code has it.  On a session as \<open>Connect\<close> leaves it (a stop channel of one
  slot, empty) the first \<open>Close\<close> completes and leaves the slot taken.  A second \<open>Close\<close>
  blocks in its send while the slot is taken; it completes once the signal of the first
  has been received, which is what the select of \<open>Run\<close> does when it takes the stop
  case.
\<close>

theorem Close_twice:
  "stop (session w) = Some (Chan 1 0) \<longrightarrow>
     fst (Close w) = Returns () \<and>
     stop (session (snd (Close w))) = Some (Chan 1 1) \<and>
     Close (snd (Close w)) = (Blocks, snd (Close w)) \<and>
     fst (Run_loop env [Case_stop] (snd (Close w))) = Returned \<and>
     fst (Close (snd (Run_loop env [Case_stop] (snd (Close w))))) = Returns ()"
proof
  assume a: "stop (session w) = Some (Chan 1 0)"
  let ?w1 = "snd (Close w)"
  have c1: "fst (Close w) = Returns ()" and s1: "stop (session ?w1) = Some (Chan 1 (Suc 0))"
    using Close_free [OF a] by simp_all
  have c2: "Close ?w1 = (Blocks, ?w1)"
    using Close_full [OF s1] by simp
  have r: "Run_loop env [Case_stop] ?w1
      = (Returned, ?w1\<lparr>session := (session ?w1)\<lparr>stop := Some (Chan 1 0)\<rparr>\<rparr>)"
    using s1 by simp
  have c3: "fst (Close (snd (Run_loop env [Case_stop] ?w1))) = Returns ()"
    unfolding r by (simp add: Close_def Let_def)
  show "fst (Close w) = Returns () \<and>
     stop (session (snd (Close w))) = Some (Chan 1 1) \<and>
     Close (snd (Close w)) = (Blocks, snd (Close w)) \<and>
     fst (Run_loop env [Case_stop] (snd (Close w))) = Returned \<and>
     fst (Close (snd (Run_loop env [Case_stop] (snd (Close w))))) = Returns ()"
    using c1 s1 c2 r c3 by simp
qed

theorem Close_twice_witness:
  "stop (session world_connected) = Some (Chan 1 0) \<and>
   fst (Close world_connected) = Returns () \<and>
   stop (session (snd (Close world_connected))) = Some (Chan 1 1) \<and>
   Close (snd (Close world_connected)) = (Blocks, snd (Close world_connected)) \<and>
   fst (Run_loop env_ok [Case_stop] (snd (Close world_connected))) = Returned \<and>
   fst (Close (snd (Run_loop env_ok [Case_stop] (snd (Close world_connected))))) = Returns ()"
proof -
  have s0: "stop (session world_connected) = Some (Chan 1 0)"
    by (simp add: world_connected_def)
  show ?thesis
    using s0 Close_twice [of world_connected env_ok] by blast
qed

subsection \<open>The loop of Run\<close>




text \<open>
  C4.  After the logout message the loop need not return at once: the select has no
  priority among the cases that can proceed, so an event that is ready on a stream can
  be taken before the stop case.  Here a connections message is handled after the
  logout (its connection id is stored and its \<^verbatim>\<open>PutConnectState\<close> issued) and only then
  does \<open>Run\<close> return.  And on a session whose stop slot is already taken, the \<open>Close\<close> of
  the logout handler blocks, and \<open>Run\<close> does not return.
\<close>

theorem logout_then_further_event:
  "fst (Run_loop env_ok [Case_msgRecv msg_logout, Case_msgRecv msg_connections, Case_stop]
          world_connected) = Returned \<and>
   spotConnId (session (snd (Run_loop env_ok
      [Case_msgRecv msg_logout, Case_msgRecv msg_connections, Case_stop] world_connected)))
     = ''abc123'' \<and>
   length (put_requests (calls (snd (Run_loop env_ok
      [Case_msgRecv msg_logout, Case_msgRecv msg_connections, Case_stop] world_connected)))) = 1 \<and>
   fst (Run_loop env_ok [Case_msgRecv msg_logout, Case_stop] (snd (Close world_connected)))
     = Blocked"
  by (simp add: handleDealerMessage_def Close_def Let_def emit_def HasPrefix_def index_map_def
      msg_logout_def msg_connections_def world_connected_def env_ok_def)

text \<open>
  C4, as the code has it.  A message whose Uri starts with
  \<^verbatim>\<open>hm://connect-state/v1/connect/logout\<close>, handled while the stop channel has a free
  slot, makes the handler log the authenticated username and invoke \<open>Close\<close> once: the
  signal is queued, the Dealer is closed, then the Accesspoint.  The stop case can
  proceed from then on, and when the select takes it next, \<open>Run\<close> returns having made
  exactly these four calls and handled no further event, whatever events were to follow.
  Handled while the slot is taken, the message makes the handler log the username and
  block in the send of \<open>Close\<close>: the loop stays blocked there and \<open>Run\<close> does not return.
\<close>

theorem Run_loop_logout:
  "(HasPrefix (Uri msg) ''hm://connect-state/v1/connect/logout'' \<and>
    stop (session w) = Some (Chan c n) \<and> n < c \<longrightarrow>
      handleDealerMessage env w msg =
        (Returns None, w\<lparr>session := (session w)\<lparr>stop := Some (Chan c (Suc n))\<rparr>,
           calls := calls w @
             [Log_Infof (''logging out from '' @ Username env (calls w) (ap (session w))),
              Send_stop, Call_Dealer_Close (dealer (session w)),
              Call_Accesspoint_Close (ap (session w))]\<rparr>) \<and>
      Run_loop env (Case_msgRecv msg # Case_stop # cs) w =
        (Returned, w\<lparr>calls := calls w @
             [Log_Infof (''logging out from '' @ Username env (calls w) (ap (session w))),
              Send_stop, Call_Dealer_Close (dealer (session w)),
              Call_Accesspoint_Close (ap (session w))]\<rparr>)) \<and>
   (HasPrefix (Uri msg2) ''hm://connect-state/v1/connect/logout'' \<and>
    stop (session w2) = Some (Chan c2 n2) \<and> c2 \<le> n2 \<longrightarrow>
      Run_loop env (Case_msgRecv msg2 # cs2) w2 =
        (Blocked,
         emit (Log_Infof (''logging out from '' @ Username env (calls w2) (ap (session w2)))) w2))"
proof (intro conjI impI)
  assume a: "HasPrefix (Uri msg) ''hm://connect-state/v1/connect/logout'' \<and>
    stop (session w) = Some (Chan c n) \<and> n < c"
  then show h: "handleDealerMessage env w msg =
        (Returns None, w\<lparr>session := (session w)\<lparr>stop := Some (Chan c (Suc n))\<rparr>,
           calls := calls w @
             [Log_Infof (''logging out from '' @ Username env (calls w) (ap (session w))),
              Send_stop, Call_Dealer_Close (dealer (session w)),
              Call_Accesspoint_Close (ap (session w))]\<rparr>)"
    by (simp add: handleDealerMessage_logout_free)
  show "Run_loop env (Case_msgRecv msg # Case_stop # cs) w =
        (Returned, w\<lparr>calls := calls w @
             [Log_Infof (''logging out from '' @ Username env (calls w) (ap (session w))),
              Send_stop, Call_Dealer_Close (dealer (session w)),
              Call_Accesspoint_Close (ap (session w))]\<rparr>)"
    using a by (simp add: h)
next
  assume "HasPrefix (Uri msg2) ''hm://connect-state/v1/connect/logout'' \<and>
    stop (session w2) = Some (Chan c2 n2) \<and> c2 \<le> n2"
  then show "Run_loop env (Case_msgRecv msg2 # cs2) w2 =
        (Blocked,
         emit (Log_Infof (''logging out from '' @ Username env (calls w2) (ap (session w2)))) w2)"
    by (simp add: handleDealerMessage_logout_full)
qed

theorem Run_loop_logout_witness:
  "HasPrefix (Uri msg_logout) ''hm://connect-state/v1/connect/logout'' \<and>
   stop (session world_connected) = Some (Chan 1 0) \<and> (0::nat) < 1 \<and>
   Username env_ok (calls world_connected) (ap (session world_connected)) = ''alice'' \<and>
   Run_loop env_ok (Case_msgRecv msg_logout # Case_stop # [Case_msgRecv msg_connections])
       world_connected =
     (Returned, world_connected\<lparr>calls := calls world_connected @
        [Log_Infof (''logging out from '' @
           Username env_ok (calls world_connected) (ap (session world_connected))),
         Send_stop, Call_Dealer_Close (dealer (session world_connected)),
         Call_Accesspoint_Close (ap (session world_connected))]\<rparr>) \<and>
   stop (session (snd (Close world_connected))) = Some (Chan 1 (Suc 0)) \<and> (1::nat) \<le> Suc 0 \<and>
   Run_loop env_ok (Case_msgRecv msg_logout # [Case_stop]) (snd (Close world_connected)) =
     (Blocked,
      emit (Log_Infof (''logging out from '' @
        Username env_ok (calls (snd (Close world_connected)))
          (ap (session (snd (Close world_connected))))))
        (snd (Close world_connected)))"
proof -
  have p1: "HasPrefix (Uri msg_logout) ''hm://connect-state/v1/connect/logout''"
    by (simp add: msg_logout_def HasPrefix_def)
  have p2: "stop (session world_connected) = Some (Chan 1 0)"
    by (simp add: world_connected_def)
  have p3: "(0::nat) < 1" "(1::nat) \<le> Suc 0"
    by simp_all
  have p4: "Username env_ok (calls world_connected) (ap (session world_connected)) = ''alice''"
    by (simp add: env_ok_def)
  have p5: "stop (session (snd (Close world_connected))) = Some (Chan 1 (Suc 0))"
    by (simp add: Close_def world_connected_def emit_def)
  show ?thesis
    using p1 p2 p3 p4 p5
      Run_loop_logout [of msg_logout world_connected 1 0 env_ok "[Case_msgRecv msg_connections]"
        msg_logout "snd (Close world_connected)" 1 "Suc 0" "[Case_stop]"]
    by blast
qed

subsection \<open>Connect\<close>

lemma steps_Cons:
  "steps (c # cs) = (case step_of c of None \<Rightarrow> steps cs | Some s \<Rightarrow> s # steps cs)"
  by (simp add: steps_def map_filter_def split: option.split)

lemma steps_Nil: "steps [] = []"
  by (simp add: steps_def map_filter_def)

lemma fail_fast_failure:
  "fail_fast (s # expected) (Returns (Some (Errorf m e))) [Step s m (Some e)]"
  by (simp add: fail_fast_def)

lemma fail_fast_success:
  assumes "fail_fast expected r ss"
  shows "fail_fast (s # expected) r (Step s m None # ss)"
proof (cases ss)
  case Nil
  with assms show ?thesis
    by (auto simp: fail_fast_def split: outcome.splits option.splits)
next
  case (Cons x xs)
  with assms show ?thesis
    by (auto simp: fail_fast_def split: outcome.splits option.splits)
qed

lemma Connect_dealer_steps:
  "\<exists>t. calls (snd (Connect_dealer env w)) = calls w @ t \<and> put_requests t = [] \<and>
     filter is_auth_call t = [] \<and>
     fail_fast [Resolve_Dealer, Construct_Dealer] (fst (Connect_dealer env w)) (steps t)"
proof -
  obtain dealerAddr err where g: "GetDealer env (calls w) = (dealerAddr, err)"
    by (cases "GetDealer env (calls w)")
  let ?w1 = "emit (Call_GetDealer dealerAddr err) w"
  let ?tok = "AccessToken env (calls ?w1) (login5 (session ?w1))"
  obtain d err2 where n: "NewDealer env (calls ?w1) dealerAddr ?tok = (d, err2)"
    by (cases "NewDealer env (calls ?w1) dealerAddr ?tok")
  show ?thesis
  proof (cases err)
    case (Some e)
    with g show ?thesis
      by (simp add: Connect_dealer_def Let_def calls_emit steps_Cons steps_Nil fail_fast_failure)
  next
    case None
    show ?thesis
    proof (cases err2)
      case (Some e)
      with g n None show ?thesis
        by (simp add: Connect_dealer_def Let_def calls_emit steps_Cons steps_Nil
            fail_fast_failure fail_fast_success)
    next
      case None2: None
      with g n None show ?thesis
        by (simp add: Connect_dealer_def Let_def calls_emit steps_Cons steps_Nil fail_fast_def)
    qed
  qed
qed

lemma Connect_spclient_steps:
  "\<exists>t. calls (snd (Connect_spclient env w)) = calls w @ t \<and> put_requests t = [] \<and>
     filter is_auth_call t = [] \<and>
     fail_fast [Resolve_Spclient, Construct_Spclient, Resolve_Dealer, Construct_Dealer]
       (fst (Connect_spclient env w)) (steps t)"
proof -
  obtain spAddr err where g: "GetSpclient env (calls w) = (spAddr, err)"
    by (cases "GetSpclient env (calls w)")
  let ?w1 = "emit (Call_GetSpclient spAddr err) w"
  let ?tok = "AccessToken env (calls ?w1) (login5 (session ?w1))"
  obtain c err2 where n: "NewSpclient env (calls ?w1) spAddr ?tok
      (deviceId (app (session ?w1))) (clientToken (app (session ?w1))) = (c, err2)"
    by (cases "NewSpclient env (calls ?w1) spAddr ?tok
      (deviceId (app (session ?w1))) (clientToken (app (session ?w1)))")
  let ?w2 = "emit (Call_NewSpclient spAddr ?tok
      (deviceId (app (session ?w1))) (clientToken (app (session ?w1))) c err2)
      (?w1\<lparr>session := (session ?w1)\<lparr>sp := c\<rparr>\<rparr>)"
  from Connect_dealer_steps [of env ?w2]
  obtain t where t: "calls (snd (Connect_dealer env ?w2)) = calls ?w2 @ t" "put_requests t = []"
    "filter is_auth_call t = []"
    "fail_fast [Resolve_Dealer, Construct_Dealer] (fst (Connect_dealer env ?w2)) (steps t)"
    by blast
  show ?thesis
  proof (cases err)
    case (Some e)
    with g show ?thesis
      by (simp add: Connect_spclient_def Let_def calls_emit steps_Cons steps_Nil fail_fast_failure)
  next
    case None
    show ?thesis
    proof (cases err2)
      case (Some e)
      with g n None show ?thesis
        by (simp add: Connect_spclient_def Let_def calls_emit steps_Cons steps_Nil
            fail_fast_failure fail_fast_success)
    next
      case None2: None
      from g n None None2 have eq: "Connect_spclient env w = Connect_dealer env ?w2"
        by (simp add: Connect_spclient_def Let_def)
      let ?t = "Call_GetSpclient spAddr None #
        Call_NewSpclient spAddr ?tok (deviceId (app (session ?w1))) (clientToken (app (session ?w1)))
          c None # t"
      have "calls (snd (Connect_spclient env w)) = calls w @ ?t"
        using t(1) None None2 by (simp add: eq calls_emit)
      moreover have "put_requests ?t = []" "filter is_auth_call ?t = []"
        using t(2,3) by simp_all
      moreover have "fail_fast [Resolve_Spclient, Construct_Spclient, Resolve_Dealer, Construct_Dealer]
          (fst (Connect_spclient env w)) (steps ?t)"
        using t(4) by (simp add: eq steps_Cons fail_fast_success)
      ultimately show ?thesis by blast
    qed
  qed
qed

lemma Connect_login5_steps:
  "\<exists>t. calls (snd (Connect_login5 env w)) = calls w @ t \<and> put_requests t = [] \<and>
     filter is_auth_call t = [] \<and>
     fail_fast [Exchange_Login5, Resolve_Spclient, Construct_Spclient, Resolve_Dealer, Construct_Dealer]
       (fst (Connect_login5 env w)) (steps t)"
proof -
  let ?user = "Username env (calls w) (ap (session w))"
  let ?data = "StoredCredentials env (calls w) (ap (session w))"
  let ?err = "Login env (calls w) (login5 (session w)) ?user ?data"
  let ?w1 = "emit (Call_Login (login5 (session w)) ?user ?data ?err) w"
  from Connect_spclient_steps [of env ?w1]
  obtain t where t: "calls (snd (Connect_spclient env ?w1)) = calls ?w1 @ t" "put_requests t = []"
    "filter is_auth_call t = []"
    "fail_fast [Resolve_Spclient, Construct_Spclient, Resolve_Dealer, Construct_Dealer]
       (fst (Connect_spclient env ?w1)) (steps t)"
    by blast
  show ?thesis
  proof (cases ?err)
    case (Some e)
    then show ?thesis
      by (simp add: Connect_login5_def Let_def calls_emit steps_Cons steps_Nil fail_fast_failure)
  next
    case None
    then have eq: "Connect_login5 env w = Connect_spclient env ?w1"
      by (simp add: Connect_login5_def Let_def)
    let ?t = "Call_Login (login5 (session w)) ?user ?data None # t"
    have "calls (snd (Connect_login5 env w)) = calls w @ ?t"
      using t(1) None by (simp add: eq calls_emit)
    moreover have "put_requests ?t = []" "filter is_auth_call ?t = []"
      using t(2,3) by simp_all
    moreover have "fail_fast
        [Exchange_Login5, Resolve_Spclient, Construct_Spclient, Resolve_Dealer, Construct_Dealer]
        (fst (Connect_login5 env w)) (steps ?t)"
      using t(4) by (simp add: eq steps_Cons fail_fast_success)
    ultimately show ?thesis by blast
  qed
qed

lemma Connect_shape:
  "\<exists>t. calls (snd (Connect env w creds)) = calls w @ t \<and> put_requests t = [] \<and>
     ((\<exists>e. fst (Connect env w creds)
             = Returns (Some (Errorf ''failed getting accesspoint from resolver'' e)) \<and>
           filter is_auth_call t = [] \<and>
           steps t = [Step Resolve_Accesspoint ''failed getting accesspoint from resolver'' (Some e)]) \<or>
      (\<exists>e. fst (Connect env w creds) = Returns (Some (Errorf ''failed initializing accesspoint'' e)) \<and>
           filter is_auth_call t = [] \<and>
           steps t = [Step Resolve_Accesspoint ''failed getting accesspoint from resolver'' None,
                      Step Construct_Accesspoint ''failed initializing accesspoint'' (Some e)]) \<or>
      (creds = OtherCredentials \<and> fst (Connect env w creds) = Panics ''unknown credentials'' \<and>
           filter is_auth_call t = [] \<and>
           steps t = [Step Resolve_Accesspoint ''failed getting accesspoint from resolver'' None,
                      Step Construct_Accesspoint ''failed initializing accesspoint'' None]) \<or>
      (\<exists>u p a e ss. creds = SessionUserPassCredentials u p \<and>
           filter is_auth_call t = [Call_ConnectUserPass a u p e] \<and>
           steps t = Step Resolve_Accesspoint ''failed getting accesspoint from resolver'' None #
                     Step Construct_Accesspoint ''failed initializing accesspoint'' None #
                     Step Authenticate ''failed authenticating accesspoint with username and password'' e #
                     ss \<and>
           fail_fast [Authenticate, Exchange_Login5, Resolve_Spclient, Construct_Spclient,
                      Resolve_Dealer, Construct_Dealer] (fst (Connect env w creds))
             (Step Authenticate ''failed authenticating accesspoint with username and password'' e # ss)) \<or>
      (\<exists>u b a e ss. creds = SessionBlobCredentials u b \<and>
           filter is_auth_call t = [Call_ConnectBlob a u b e] \<and>
           steps t = Step Resolve_Accesspoint ''failed getting accesspoint from resolver'' None #
                     Step Construct_Accesspoint ''failed initializing accesspoint'' None #
                     Step Authenticate ''failed authenticating accesspoint with blob'' e #
                     ss \<and>
           fail_fast [Authenticate, Exchange_Login5, Resolve_Spclient, Construct_Spclient,
                      Resolve_Dealer, Construct_Dealer] (fst (Connect env w creds))
             (Step Authenticate ''failed authenticating accesspoint with blob'' e # ss)))"
proof -
  let ?w1 = "w\<lparr>session := (session w)\<lparr>stop := Some (Chan 1 0)\<rparr>\<rparr>"
  let ?dev = "deviceId (app (session w))"
  let ?ct = "clientToken (app (session w))"
  let ?l = "NewLogin5 env (calls w) ?dev ?ct"
  let ?c0 = "Call_NewLogin5 ?dev ?ct ?l"
  let ?w2 = "emit ?c0 (?w1\<lparr>session := (session ?w1)\<lparr>login5 := ?l\<rparr>\<rparr>)"
  obtain apAddr err where g: "GetAccesspoint env (calls ?w2) = (apAddr, err)"
    by (cases "GetAccesspoint env (calls ?w2)")
  let ?c1 = "Call_GetAccesspoint apAddr err"
  let ?w3 = "emit ?c1 ?w2"
  obtain a err2 where n: "NewAccesspoint env (calls ?w3) apAddr ?dev = (a, err2)"
    by (cases "NewAccesspoint env (calls ?w3) apAddr ?dev")
  let ?c2 = "Call_NewAccesspoint apAddr ?dev a err2"
  let ?w4 = "emit ?c2 (?w3\<lparr>session := (session ?w3)\<lparr>ap := a\<rparr>\<rparr>)"
  have dev: "deviceId (app (session ?w3)) = ?dev"
    by (simp add: session_emit)
  have c4: "calls ?w4 = calls w @ [?c0, ?c1, ?c2]"
    by (simp add: calls_emit)
  have a4: "ap (session ?w4) = a"
    by (simp add: session_emit)
  show ?thesis
  proof (cases err)
    case (Some e)
    with g have "fst (Connect env w creds)
        = Returns (Some (Errorf ''failed getting accesspoint from resolver'' e))"
      and "calls (snd (Connect env w creds)) = calls w @ [?c0, Call_GetAccesspoint apAddr (Some e)]"
      by (simp_all add: Connect_def Let_def calls_emit session_emit)
    then show ?thesis
      by (intro exI [of _ "[?c0, Call_GetAccesspoint apAddr (Some e)]"])
        (simp add: steps_Cons steps_Nil)
  next
    case None
    show ?thesis
    proof (cases err2)
      case (Some e)
      with g n None have "fst (Connect env w creds)
          = Returns (Some (Errorf ''failed initializing accesspoint'' e))"
        and "calls (snd (Connect env w creds))
          = calls w @ [?c0, Call_GetAccesspoint apAddr None, Call_NewAccesspoint apAddr ?dev a (Some e)]"
        by (simp_all add: Connect_def Let_def calls_emit session_emit)
      then show ?thesis
        by (intro exI [of _ "[?c0, Call_GetAccesspoint apAddr None,
              Call_NewAccesspoint apAddr ?dev a (Some e)]"])
          (simp add: steps_Cons steps_Nil)
    next
      case None2: None
      show ?thesis
      proof (cases creds)
        case OtherCredentials
        with g n None None2 have "Connect env w creds = (Panics ''unknown credentials'', ?w4)"
          by (simp add: Connect_def Let_def session_emit)
        with c4 None None2 OtherCredentials show ?thesis
          by (intro exI [of _ "[?c0, ?c1, ?c2]"]) (simp add: steps_Cons steps_Nil)
      next
        case (SessionUserPassCredentials u p)
        let ?e = "ConnectUserPass env (calls ?w4) a u p"
        let ?c3 = "Call_ConnectUserPass a u p ?e"
        let ?w5 = "emit ?c3 ?w4"
        let ?m = "''failed authenticating accesspoint with username and password''"
        have c5: "calls ?w5 = calls w @ [?c0, ?c1, ?c2, ?c3]"
          by (simp add: calls_emit)
        show ?thesis
        proof (cases ?e)
          case (Some e)
          with g n None None2 SessionUserPassCredentials
          have "Connect env w creds = (Returns (Some (Errorf ?m e)), ?w5)"
            by (simp add: Connect_def Let_def session_emit calls_emit)
          with c5 None None2 SessionUserPassCredentials Some show ?thesis
            by (intro exI [of _ "[?c0, ?c1, ?c2, ?c3]"])
              (simp add: steps_Cons steps_Nil fail_fast_failure)
        next
          case None3: None
          with g n None None2 SessionUserPassCredentials
          have eq: "Connect env w creds = Connect_login5 env ?w5"
            by (simp add: Connect_def Let_def session_emit calls_emit)
          from Connect_login5_steps [of env ?w5]
          obtain t where t: "calls (snd (Connect_login5 env ?w5)) = calls ?w5 @ t"
            "put_requests t = []" "filter is_auth_call t = []"
            "fail_fast [Exchange_Login5, Resolve_Spclient, Construct_Spclient, Resolve_Dealer,
               Construct_Dealer] (fst (Connect_login5 env ?w5)) (steps t)"
            by blast
          have "calls (snd (Connect env w creds)) = calls w @ ([?c0, ?c1, ?c2, ?c3] @ t)"
            using t(1) c5 by (simp add: eq)
          moreover have "put_requests ([?c0, ?c1, ?c2, ?c3] @ t) = []"
            using t(2) by simp
          moreover have "filter is_auth_call ([?c0, ?c1, ?c2, ?c3] @ t) = [Call_ConnectUserPass a u p None]"
            using t(3) None3 by simp
          moreover have "steps ([?c0, ?c1, ?c2, ?c3] @ t) =
              Step Resolve_Accesspoint ''failed getting accesspoint from resolver'' None #
              Step Construct_Accesspoint ''failed initializing accesspoint'' None #
              Step Authenticate ?m None # steps t"
            using None None2 None3 by (simp add: steps_Cons)
          moreover have "fail_fast [Authenticate, Exchange_Login5, Resolve_Spclient,
              Construct_Spclient, Resolve_Dealer, Construct_Dealer] (fst (Connect env w creds))
              (Step Authenticate ?m None # steps t)"
            using t(4) by (simp add: eq fail_fast_success)
          ultimately show ?thesis
            using SessionUserPassCredentials by blast
        qed
      next
        case (SessionBlobCredentials u b)
        let ?e = "ConnectBlob env (calls ?w4) a u b"
        let ?c3 = "Call_ConnectBlob a u b ?e"
        let ?w5 = "emit ?c3 ?w4"
        let ?m = "''failed authenticating accesspoint with blob''"
        have c5: "calls ?w5 = calls w @ [?c0, ?c1, ?c2, ?c3]"
          by (simp add: calls_emit)
        show ?thesis
        proof (cases ?e)
          case (Some e)
          with g n None None2 SessionBlobCredentials
          have "Connect env w creds = (Returns (Some (Errorf ?m e)), ?w5)"
            by (simp add: Connect_def Let_def session_emit calls_emit)
          with c5 None None2 SessionBlobCredentials Some show ?thesis
            by (intro exI [of _ "[?c0, ?c1, ?c2, ?c3]"])
              (simp add: steps_Cons steps_Nil fail_fast_failure)
        next
          case None3: None
          with g n None None2 SessionBlobCredentials
          have eq: "Connect env w creds = Connect_login5 env ?w5"
            by (simp add: Connect_def Let_def session_emit calls_emit)
          from Connect_login5_steps [of env ?w5]
          obtain t where t: "calls (snd (Connect_login5 env ?w5)) = calls ?w5 @ t"
            "put_requests t = []" "filter is_auth_call t = []"
            "fail_fast [Exchange_Login5, Resolve_Spclient, Construct_Spclient, Resolve_Dealer,
               Construct_Dealer] (fst (Connect_login5 env ?w5)) (steps t)"
            by blast
          have "calls (snd (Connect env w creds)) = calls w @ ([?c0, ?c1, ?c2, ?c3] @ t)"
            using t(1) c5 by (simp add: eq)
          moreover have "put_requests ([?c0, ?c1, ?c2, ?c3] @ t) = []"
            using t(2) by simp
          moreover have "filter is_auth_call ([?c0, ?c1, ?c2, ?c3] @ t) = [Call_ConnectBlob a u b None]"
            using t(3) None3 by simp
          moreover have "steps ([?c0, ?c1, ?c2, ?c3] @ t) =
              Step Resolve_Accesspoint ''failed getting accesspoint from resolver'' None #
              Step Construct_Accesspoint ''failed initializing accesspoint'' None #
              Step Authenticate ?m None # steps t"
            using None None2 None3 by (simp add: steps_Cons)
          moreover have "fail_fast [Authenticate, Exchange_Login5, Resolve_Spclient,
              Construct_Spclient, Resolve_Dealer, Construct_Dealer] (fst (Connect env w creds))
              (Step Authenticate ?m None # steps t)"
            using t(4) by (simp add: eq fail_fast_success)
          ultimately show ?thesis
            using SessionBlobCredentials by blast
        qed
      qed
    qed
  qed
qed

lemma calls_since_append: "calls w' = calls w @ t \<Longrightarrow> calls_since w w' = t"
  by (simp add: calls_since_def)

lemma Connect_fail_fast:
  "\<exists>t. calls (snd (Connect env w creds)) = calls w @ t \<and>
     (fail_fast [Resolve_Accesspoint, Construct_Accesspoint, Authenticate, Exchange_Login5,
        Resolve_Spclient, Construct_Spclient, Resolve_Dealer, Construct_Dealer]
        (fst (Connect env w creds)) (steps t) \<or>
      creds = OtherCredentials \<and> fst (Connect env w creds) = Panics ''unknown credentials'' \<and>
      steps t = [Step Resolve_Accesspoint ''failed getting accesspoint from resolver'' None,
                 Step Construct_Accesspoint ''failed initializing accesspoint'' None])"
proof -
  let ?tail = "[Authenticate, Exchange_Login5, Resolve_Spclient, Construct_Spclient,
     Resolve_Dealer, Construct_Dealer]"
  let ?m1 = "''failed getting accesspoint from resolver''"
  let ?m2 = "''failed initializing accesspoint''"
  have two: "fail_fast (Resolve_Accesspoint # Construct_Accesspoint # ?tail) r
      (Step Resolve_Accesspoint ?m1 None # Step Construct_Accesspoint ?m2 None # ss)"
    if "fail_fast ?tail r ss" for r ss
    using that by (intro fail_fast_success)
  from Connect_shape [of env w creds]
  obtain t where c: "calls (snd (Connect env w creds)) = calls w @ t"
    and cases: "(\<exists>e. fst (Connect env w creds) = Returns (Some (Errorf ?m1 e)) \<and>
           steps t = [Step Resolve_Accesspoint ?m1 (Some e)]) \<or>
      (\<exists>e. fst (Connect env w creds) = Returns (Some (Errorf ?m2 e)) \<and>
           steps t = [Step Resolve_Accesspoint ?m1 None, Step Construct_Accesspoint ?m2 (Some e)]) \<or>
      (creds = OtherCredentials \<and> fst (Connect env w creds) = Panics ''unknown credentials'' \<and>
           steps t = [Step Resolve_Accesspoint ?m1 None, Step Construct_Accesspoint ?m2 None]) \<or>
      (\<exists>ss. steps t = Step Resolve_Accesspoint ?m1 None # Step Construct_Accesspoint ?m2 None # ss \<and>
           fail_fast ?tail (fst (Connect env w creds)) ss)"
    by blast
  from cases consider
      (resolve) e where "fst (Connect env w creds) = Returns (Some (Errorf ?m1 e))"
        "steps t = [Step Resolve_Accesspoint ?m1 (Some e)]"
    | (construct) e where "fst (Connect env w creds) = Returns (Some (Errorf ?m2 e))"
        "steps t = [Step Resolve_Accesspoint ?m1 None, Step Construct_Accesspoint ?m2 (Some e)]"
    | (other) "creds = OtherCredentials" "fst (Connect env w creds) = Panics ''unknown credentials''"
        "steps t = [Step Resolve_Accesspoint ?m1 None, Step Construct_Accesspoint ?m2 None]"
    | (auth) ss where
        "steps t = Step Resolve_Accesspoint ?m1 None # Step Construct_Accesspoint ?m2 None # ss"
        "fail_fast ?tail (fst (Connect env w creds)) ss"
    by blast
  then show ?thesis
  proof cases
    case resolve
    with c show ?thesis
      by (intro exI [of _ t]) (simp add: fail_fast_failure)
  next
    case construct
    with c show ?thesis
      by (intro exI [of _ t]) (simp add: fail_fast_failure fail_fast_success)
  next
    case other
    with c show ?thesis by blast
  next
    case auth
    with c two [OF auth(2)] show ?thesis
      by (intro exI [of _ t]) simp
  qed
qed

lemma fail_fast_no_panic: "fail_fast ex r ss \<Longrightarrow> r \<noteq> Panics q"
  by (auto simp: fail_fast_def)

lemma Connect_auth_shape:
  "(\<exists>e. fst (Connect env w creds)
          = Returns (Some (Errorf ''failed getting accesspoint from resolver'' e)) \<and>
        filter is_auth_call (calls_since w (snd (Connect env w creds))) = []) \<or>
   (\<exists>e. fst (Connect env w creds) = Returns (Some (Errorf ''failed initializing accesspoint'' e)) \<and>
        filter is_auth_call (calls_since w (snd (Connect env w creds))) = []) \<or>
   (creds = OtherCredentials \<and> fst (Connect env w creds) = Panics ''unknown credentials'' \<and>
        filter is_auth_call (calls_since w (snd (Connect env w creds))) = []) \<or>
   (\<exists>u p a e. creds = SessionUserPassCredentials u p \<and>
        filter is_auth_call (calls_since w (snd (Connect env w creds)))
          = [Call_ConnectUserPass a u p e] \<and>
        (\<forall>q. fst (Connect env w creds) \<noteq> Panics q)) \<or>
   (\<exists>u b a e. creds = SessionBlobCredentials u b \<and>
        filter is_auth_call (calls_since w (snd (Connect env w creds)))
          = [Call_ConnectBlob a u b e] \<and>
        (\<forall>q. fst (Connect env w creds) \<noteq> Panics q))"
proof -
  let ?r = "fst (Connect env w creds)"
  let ?tail = "[Authenticate, Exchange_Login5, Resolve_Spclient, Construct_Spclient,
     Resolve_Dealer, Construct_Dealer]"
  from Connect_shape [of env w creds]
  obtain t where c: "calls (snd (Connect env w creds)) = calls w @ t"
    and d: "(\<exists>e. ?r = Returns (Some (Errorf ''failed getting accesspoint from resolver'' e)) \<and>
           filter is_auth_call t = []) \<or>
      (\<exists>e. ?r = Returns (Some (Errorf ''failed initializing accesspoint'' e)) \<and>
           filter is_auth_call t = []) \<or>
      (creds = OtherCredentials \<and> ?r = Panics ''unknown credentials'' \<and>
           filter is_auth_call t = []) \<or>
      (\<exists>u p a e ss. creds = SessionUserPassCredentials u p \<and>
           filter is_auth_call t = [Call_ConnectUserPass a u p e] \<and> fail_fast ?tail ?r ss) \<or>
      (\<exists>u b a e ss. creds = SessionBlobCredentials u b \<and>
           filter is_auth_call t = [Call_ConnectBlob a u b e] \<and> fail_fast ?tail ?r ss)"
    by blast
  have s: "calls_since w (snd (Connect env w creds)) = t"
    using c by (rule calls_since_append)
  from d consider
      (resolve) e where "?r = Returns (Some (Errorf ''failed getting accesspoint from resolver'' e))"
        "filter is_auth_call t = []"
    | (construct) e where "?r = Returns (Some (Errorf ''failed initializing accesspoint'' e))"
        "filter is_auth_call t = []"
    | (other) "creds = OtherCredentials" "?r = Panics ''unknown credentials''"
        "filter is_auth_call t = []"
    | (userpass) u p a e ss where "creds = SessionUserPassCredentials u p"
        "filter is_auth_call t = [Call_ConnectUserPass a u p e]" "fail_fast ?tail ?r ss"
    | (blob) u b a e ss where "creds = SessionBlobCredentials u b"
        "filter is_auth_call t = [Call_ConnectBlob a u b e]" "fail_fast ?tail ?r ss"
    by blast
  then show ?thesis
  proof cases
    case resolve
    then show ?thesis unfolding s by blast
  next
    case construct
    then show ?thesis unfolding s by blast
  next
    case other
    then show ?thesis unfolding s by blast
  next
    case userpass
    from userpass(3) have "\<forall>q. ?r \<noteq> Panics q"
      by (blast dest: fail_fast_no_panic)
    with userpass(1,2) show ?thesis unfolding s by blast
  next
    case blob
    from blob(3) have "\<forall>q. ?r \<noteq> Panics q"
      by (blast dest: fail_fast_no_panic)
    with blob(1,2) show ?thesis unfolding s by blast
  qed
qed

lemma list_all_auth_call_for:
  "list_all (auth_call_for creds) (filter is_auth_call t) \<Longrightarrow> list_all (auth_call_for creds) t"
proof (induction t)
  case Nil
  then show ?case by simp
next
  case (Cons c t)
  then show ?case by (cases c) auto
qed

lemma calls_args_ok_append:
  "calls_args_ok env s h (xs @ ys) = (calls_args_ok env s h xs \<and> calls_args_ok env s (h @ xs) ys)"
  by (induction xs arbitrary: h) auto

lemma Connect_dealer_session:
  "login5 (session (snd (Connect_dealer env w))) = login5 (session w) \<and>
   ap (session (snd (Connect_dealer env w))) = ap (session w) \<and>
   app (session (snd (Connect_dealer env w))) = app (session w)"
  by (simp add: Connect_dealer_def Let_def session_emit split: prod.split option.split)

lemma Connect_spclient_session:
  "login5 (session (snd (Connect_spclient env w))) = login5 (session w) \<and>
   ap (session (snd (Connect_spclient env w))) = ap (session w) \<and>
   app (session (snd (Connect_spclient env w))) = app (session w)"
  by (simp add: Connect_spclient_def Let_def session_emit Connect_dealer_session
      split: prod.split option.split)

lemma Connect_login5_session:
  "login5 (session (snd (Connect_login5 env w))) = login5 (session w) \<and>
   ap (session (snd (Connect_login5 env w))) = ap (session w) \<and>
   app (session (snd (Connect_login5 env w))) = app (session w)"
  by (simp add: Connect_login5_def Let_def session_emit Connect_spclient_session
      split: prod.split option.split)

lemma Connect_dealer_args:
  assumes "login5 s = login5 (session w)"
  shows "calls_args_ok env s (calls w) (calls_since w (snd (Connect_dealer env w)))"
  using assms
  by (simp add: Connect_dealer_def Let_def calls_emit session_emit calls_since_def
      split: prod.split option.split)

lemma Connect_spclient_args:
  assumes "login5 s = login5 (session w)" and "app s = app (session w)"
  shows "calls_args_ok env s (calls w) (calls_since w (snd (Connect_spclient env w)))"
proof -
  obtain spAddr err where g: "GetSpclient env (calls w) = (spAddr, err)"
    by (cases "GetSpclient env (calls w)")
  let ?c1 = "Call_GetSpclient spAddr err"
  let ?h1 = "calls w @ [?c1]"
  let ?tok = "AccessToken env ?h1 (login5 (session w))"
  let ?dev = "deviceId (app (session w))"
  let ?ct = "clientToken (app (session w))"
  obtain c err2 where n: "NewSpclient env ?h1 spAddr ?tok ?dev ?ct = (c, err2)"
    by (cases "NewSpclient env ?h1 spAddr ?tok ?dev ?ct")
  let ?c2 = "Call_NewSpclient spAddr ?tok ?dev ?ct c err2"
  let ?w2 = "emit ?c2 ((emit ?c1 w)\<lparr>session := (session (emit ?c1 w))\<lparr>sp := c\<rparr>\<rparr>)"
  have k1: "call_args_ok env s (calls w) ?c1"
    using g by simp
  show ?thesis
  proof (cases err)
    case (Some e)
    with g have cs: "calls_since w (snd (Connect_spclient env w)) = [?c1]"
      by (simp add: Connect_spclient_def Let_def calls_emit session_emit calls_since_def)
    show ?thesis
      unfolding cs using k1 by (simp only: calls_args_ok.simps simp_thms)
  next
    case None
    have k2: "call_args_ok env s ?h1 ?c2"
      using n None assms by simp
    show ?thesis
    proof (cases err2)
      case (Some e)
      with g n None have cs: "calls_since w (snd (Connect_spclient env w)) = [?c1, ?c2]"
        by (simp add: Connect_spclient_def Let_def calls_emit session_emit calls_since_def)
      show ?thesis
        unfolding cs using k1 k2 by (simp only: calls_args_ok.simps simp_thms)
    next
      case None2: None
      from g n None None2 have eq: "Connect_spclient env w = Connect_dealer env ?w2"
        by (simp add: Connect_spclient_def Let_def calls_emit session_emit)
      from Connect_dealer_steps [of env ?w2]
      obtain t where t: "calls (snd (Connect_dealer env ?w2)) = calls ?w2 @ t"
        by blast
      have c2: "calls ?w2 = calls w @ [?c1, ?c2]"
        by (simp add: calls_emit)
      have l2: "login5 s = login5 (session ?w2)"
        using assms(1) by (simp add: session_emit)
      have "calls_since ?w2 (snd (Connect_dealer env ?w2)) = t"
        using t by (rule calls_since_append)
      with Connect_dealer_args [OF l2, of env]
      have a2: "calls_args_ok env s (calls w @ [?c1, ?c2]) t"
        unfolding c2 by simp
      have "calls (snd (Connect_spclient env w)) = calls w @ ([?c1, ?c2] @ t)"
        unfolding eq t c2 by simp
      then have cs: "calls_since w (snd (Connect_spclient env w)) = [?c1, ?c2] @ t"
        by (rule calls_since_append)
      show ?thesis
        unfolding cs calls_args_ok_append using k1 k2 a2
        by (simp only: calls_args_ok.simps simp_thms append_Cons append_Nil append_assoc)
    qed
  qed
qed

lemma Connect_login5_args:
  assumes "login5 s = login5 (session w)" and "app s = app (session w)"
    and "ap s = ap (session w)"
  shows "calls_args_ok env s (calls w) (calls_since w (snd (Connect_login5 env w)))"
proof -
  let ?user = "Username env (calls w) (ap (session w))"
  let ?data = "StoredCredentials env (calls w) (ap (session w))"
  let ?err = "Login env (calls w) (login5 (session w)) ?user ?data"
  let ?c1 = "Call_Login (login5 (session w)) ?user ?data ?err"
  let ?w1 = "emit ?c1 w"
  have k1: "call_args_ok env s (calls w) ?c1"
    using assms by simp
  show ?thesis
  proof (cases ?err)
    case (Some e)
    then have cs: "calls_since w (snd (Connect_login5 env w)) = [?c1]"
      by (simp add: Connect_login5_def Let_def calls_emit calls_since_def)
    show ?thesis
      unfolding cs using k1 by (simp only: calls_args_ok.simps simp_thms)
  next
    case None
    then have eq: "Connect_login5 env w = Connect_spclient env ?w1"
      by (simp add: Connect_login5_def Let_def)
    from Connect_spclient_steps [of env ?w1]
    obtain t where t: "calls (snd (Connect_spclient env ?w1)) = calls ?w1 @ t"
      by blast
    have c1: "calls ?w1 = calls w @ [?c1]"
      by (simp add: calls_emit)
    have l1: "login5 s = login5 (session ?w1)" "app s = app (session ?w1)"
      using assms(1,2) by (simp_all add: session_emit)
    have "calls_since ?w1 (snd (Connect_spclient env ?w1)) = t"
      using t by (rule calls_since_append)
    with Connect_spclient_args [OF l1, of env]
    have a1: "calls_args_ok env s (calls w @ [?c1]) t"
      unfolding c1 by simp
    have "calls (snd (Connect_login5 env w)) = calls w @ ([?c1] @ t)"
      unfolding eq t c1 by simp
    then have cs: "calls_since w (snd (Connect_login5 env w)) = [?c1] @ t"
      by (rule calls_since_append)
    show ?thesis
      unfolding cs calls_args_ok_append using k1 a1
      by (simp only: calls_args_ok.simps simp_thms append_Cons append_Nil append_assoc)
  qed
qed


lemma Connect_args:
  "calls_args_ok env (session (snd (Connect env w creds))) (calls w)
     (calls_since w (snd (Connect env w creds)))"
proof -
  let ?s = "session (snd (Connect env w creds))"
  let ?w1 = "w\<lparr>session := (session w)\<lparr>stop := Some (Chan 1 0)\<rparr>\<rparr>"
  let ?dev = "deviceId (app (session w))"
  let ?ct = "clientToken (app (session w))"
  let ?l = "NewLogin5 env (calls w) ?dev ?ct"
  let ?c0 = "Call_NewLogin5 ?dev ?ct ?l"
  let ?w2 = "emit ?c0 (?w1\<lparr>session := (session ?w1)\<lparr>login5 := ?l\<rparr>\<rparr>)"
  obtain apAddr err where g: "GetAccesspoint env (calls w @ [?c0]) = (apAddr, err)"
    by (cases "GetAccesspoint env (calls w @ [?c0])")
  let ?c1 = "Call_GetAccesspoint apAddr err"
  let ?w3 = "emit ?c1 ?w2"
  obtain a err2 where n: "NewAccesspoint env (calls w @ [?c0, ?c1]) apAddr ?dev = (a, err2)"
    by (cases "NewAccesspoint env (calls w @ [?c0, ?c1]) apAddr ?dev")
  let ?c2 = "Call_NewAccesspoint apAddr ?dev a err2"
  let ?w4 = "emit ?c2 (?w3\<lparr>session := (session ?w3)\<lparr>ap := a\<rparr>\<rparr>)"
  have c4: "calls ?w4 = calls w @ [?c0, ?c1, ?c2]"
    by (simp add: calls_emit)
  have s4: "app (session ?w4) = app (session w)" "login5 (session ?w4) = ?l" "ap (session ?w4) = a"
    by (simp_all add: session_emit)
  have k0: "call_args_ok env s (calls w) ?c0"
    if "app s = app (session w)" "login5 s = ?l" for s
    using that by simp
  have k1: "call_args_ok env s (calls w @ [?c0]) ?c1" for s
    using g by simp
  have k2: "call_args_ok env s (calls w @ [?c0, ?c1]) ?c2"
    if "app s = app (session w)" "ap s = a" "err = None" for s
    using that n by simp
  show ?thesis
  proof (cases err)
    case (Some e)
    with g have r: "snd (Connect env w creds) = ?w3"
      by (simp add: Connect_def Let_def calls_emit session_emit)
    have cs: "calls_since w (snd (Connect env w creds)) = [?c0, ?c1]"
      unfolding r by (simp add: calls_since_def calls_emit)
    have "app ?s = app (session w)" "login5 ?s = ?l"
      unfolding r by (simp_all add: session_emit)
    from k0 [OF this] k1 [of ?s] show ?thesis
      unfolding cs by (simp only: calls_args_ok.simps simp_thms append_Cons append_Nil append_assoc)
  next
    case None
    show ?thesis
    proof (cases "err2 \<noteq> None \<or> creds = OtherCredentials")
      case True
      with g n None have r: "snd (Connect env w creds) = ?w4"
        by (cases creds) (auto simp: Connect_def Let_def calls_emit session_emit split: option.split)
      have cs: "calls_since w (snd (Connect env w creds)) = [?c0, ?c1, ?c2]"
        unfolding r calls_since_def c4 by simp
      have f: "app ?s = app (session w)" "login5 ?s = ?l" "ap ?s = a"
        unfolding r by (fact s4)+
      from k0 [OF f(1,2)] k1 [of ?s] k2 [OF f(1,3) None] show ?thesis
        unfolding cs by (simp only: calls_args_ok.simps simp_thms append_Cons append_Nil append_assoc)
    next
      case False
      then have None2: "err2 = None" and nc: "creds \<noteq> OtherCredentials"
        by simp_all
      define e where "e = (case creds of
          SessionUserPassCredentials u p \<Rightarrow> ConnectUserPass env (calls ?w4) a u p
        | SessionBlobCredentials u b \<Rightarrow> ConnectBlob env (calls ?w4) a u b
        | OtherCredentials \<Rightarrow> None)"
      define c3 where "c3 = (case creds of
          SessionUserPassCredentials u p \<Rightarrow> Call_ConnectUserPass a u p e
        | SessionBlobCredentials u b \<Rightarrow> Call_ConnectBlob a u b e
        | OtherCredentials \<Rightarrow> Send_stop)"
      let ?w5 = "emit c3 ?w4"
      have c5: "calls ?w5 = calls w @ [?c0, ?c1, ?c2, c3]"
        by (simp add: calls_emit)
      have s5: "app (session ?w5) = app (session w)" "login5 (session ?w5) = ?l"
        "ap (session ?w5) = a"
        by (simp_all add: session_emit)
      have k3: "call_args_ok env s (calls w @ [?c0, ?c1, ?c2]) c3" if "ap s = a" for s
        using that nc by (cases creds) (simp_all add: c3_def e_def calls_emit)
      show ?thesis
      proof (cases e)
        case (Some x)
        with g n None None2 nc have r: "snd (Connect env w creds) = ?w5"
          by (cases creds) (simp_all add: Connect_def Let_def calls_emit session_emit c3_def e_def)
        have cs: "calls_since w (snd (Connect env w creds)) = [?c0, ?c1, ?c2, c3]"
          unfolding r calls_since_def c5 by simp
        have f: "app ?s = app (session w)" "login5 ?s = ?l" "ap ?s = a"
          unfolding r by (fact s5)+
        from k0 [OF f(1,2)] k1 [of ?s] k2 [OF f(1,3) None] k3 [OF f(3)] show ?thesis
          unfolding cs by (simp only: calls_args_ok.simps simp_thms append_Cons append_Nil append_assoc)
      next
        case None3: None
        with g n None None2 nc have eq: "Connect env w creds = Connect_login5 env ?w5"
          by (cases creds) (simp_all add: Connect_def Let_def calls_emit session_emit c3_def e_def)
        from Connect_login5_steps [of env ?w5]
        obtain t where t: "calls (snd (Connect_login5 env ?w5)) = calls ?w5 @ t"
          by blast
        have f: "app ?s = app (session w)" "login5 ?s = ?l" "ap ?s = a"
          unfolding eq using Connect_login5_session [of env ?w5] s5 by simp_all
        have f5: "login5 ?s = login5 (session ?w5)" "app ?s = app (session ?w5)"
          "ap ?s = ap (session ?w5)"
          using f s5 by simp_all
        have "calls_since ?w5 (snd (Connect_login5 env ?w5)) = t"
          using t by (rule calls_since_append)
        with Connect_login5_args [OF f5, of env]
        have a5: "calls_args_ok env ?s (calls w @ [?c0, ?c1, ?c2, c3]) t"
          unfolding c5 by simp
        have "calls (snd (Connect env w creds)) = calls w @ ([?c0, ?c1, ?c2, c3] @ t)"
          unfolding eq t c5 by simp
        then have cs: "calls_since w (snd (Connect env w creds)) = [?c0, ?c1, ?c2, c3] @ t"
          by (rule calls_since_append)
        from k0 [OF f(1,2)] k1 [of ?s] k2 [OF f(1,3) None] k3 [OF f(3)] a5 show ?thesis
          unfolding cs calls_args_ok_append
          by (simp only: calls_args_ok.simps simp_thms append_Cons append_Nil append_assoc)
      qed
    qed
  qed
qed

lemma step_message_identifies_stage:
  "step_of c = Some s \<Longrightarrow> step_of c' = Some s' \<Longrightarrow> step_message s = step_message s' \<Longrightarrow>
   step_stage s = step_stage s'"
  by (cases c; cases c') auto

text \<open>
  C3.  The claim does not hold for every credential input.  With credentials that are
  neither of the two known types, and every collaborator succeeding, no stage fails;
  yet \<open>Connect\<close> performs the first two stages only, makes no authentication call,
  executes none of the later stages, and returns no error: it panics.
\<close>

theorem Connect_other_credentials_two_stages:
  "steps (calls_since world_idle (snd (Connect env_ok world_idle OtherCredentials))) =
     [Step Resolve_Accesspoint ''failed getting accesspoint from resolver'' None,
      Step Construct_Accesspoint ''failed initializing accesspoint'' None] \<and>
   fst (Connect env_ok world_idle OtherCredentials) = Panics ''unknown credentials''"
  by (simp add: Connect_def Let_def emit_def calls_since_def steps_def map_filter_def
      env_ok_def world_idle_def)

text \<open>
  C3, as the code has it.  Whatever the credentials and whatever the collaborators
  answer, the fallible calls \<open>Connect\<close> makes are an initial part of the eight stages in
  their order: resolve the Accesspoint address, construct the Accesspoint at that
  address, authenticate on it (by the call for the type of the credentials given, with
  their fields), exchange through Login5 the username and stored credentials of that
  Accesspoint, resolve the Spclient address, construct the Spclient at that address with
  the access token of the Login5, resolve the Dealer address, construct the Dealer at
  that address with the access token (\<open>calls_args_ok\<close>).  Every stage but the last one
  reached has succeeded.  With credentials of either known type \<open>Connect\<close> returns nil
  exactly after all eight succeeded, and otherwise returns the error of the last stage
  reached, wrapped in the message of that stage (\<open>step_message_identifies_stage\<close>: the
  message determines the stage); no stage follows a failed one.  With credentials of
  neither known type the first two stages run and fail in the same way, and when both
  succeed \<open>Connect\<close> panics with no later stage executed.
\<close>

theorem Connect_strict_order:
  "calls (snd (Connect env w creds)) = calls w @ calls_since w (snd (Connect env w creds)) \<and>
   list_all (auth_call_for creds) (calls_since w (snd (Connect env w creds))) \<and>
   calls_args_ok env (session (snd (Connect env w creds))) (calls w)
     (calls_since w (snd (Connect env w creds))) \<and>
   (let ss = steps (calls_since w (snd (Connect env w creds))) in
      map step_stage ss = take (length ss)
        [Resolve_Accesspoint, Construct_Accesspoint, Authenticate, Exchange_Login5,
         Resolve_Spclient, Construct_Spclient, Resolve_Dealer, Construct_Dealer] \<and>
      list_all (\<lambda>s. step_error s = None) (butlast ss) \<and>
      (case fst (Connect env w creds) of
         Returns None \<Rightarrow> length ss = 8 \<and> list_all (\<lambda>s. step_error s = None) ss
       | Returns (Some err) \<Rightarrow>
           (case step_error (last ss) of
              None \<Rightarrow> False
            | Some e \<Rightarrow> ss \<noteq> [] \<and> err = Errorf (step_message (last ss)) e)
       | Panics p \<Rightarrow>
           creds = OtherCredentials \<and> p = ''unknown credentials'' \<and> length ss = 2 \<and>
           list_all (\<lambda>s. step_error s = None) ss
       | Blocks \<Rightarrow> False))"
proof -
  from Connect_fail_fast [of env w creds]
  obtain t where c: "calls (snd (Connect env w creds)) = calls w @ t"
    and d: "fail_fast [Resolve_Accesspoint, Construct_Accesspoint, Authenticate, Exchange_Login5,
        Resolve_Spclient, Construct_Spclient, Resolve_Dealer, Construct_Dealer]
        (fst (Connect env w creds)) (steps t) \<or>
      creds = OtherCredentials \<and> fst (Connect env w creds) = Panics ''unknown credentials'' \<and>
      steps t = [Step Resolve_Accesspoint ''failed getting accesspoint from resolver'' None,
                 Step Construct_Accesspoint ''failed initializing accesspoint'' None]"
    by blast
  have s: "calls_since w (snd (Connect env w creds)) = t"
    using c by (rule calls_since_append)
  have "list_all (auth_call_for creds) (filter is_auth_call (calls_since w (snd (Connect env w creds))))"
    using Connect_auth_shape [of env w creds] by auto
  then have a: "list_all (auth_call_for creds) t"
    unfolding s by (rule list_all_auth_call_for)
  have g: "calls_args_ok env (session (snd (Connect env w creds))) (calls w) t"
    using Connect_args [of env w creds] unfolding s .
  from d show ?thesis
  proof
    assume "fail_fast [Resolve_Accesspoint, Construct_Accesspoint, Authenticate, Exchange_Login5,
        Resolve_Spclient, Construct_Spclient, Resolve_Dealer, Construct_Dealer]
        (fst (Connect env w creds)) (steps t)"
    then show ?thesis
      unfolding s Let_def fail_fast_def using c a g
      by (auto split: outcome.splits option.splits)
  next
    assume "creds = OtherCredentials \<and> fst (Connect env w creds) = Panics ''unknown credentials'' \<and>
      steps t = [Step Resolve_Accesspoint ''failed getting accesspoint from resolver'' None,
                 Step Construct_Accesspoint ''failed initializing accesspoint'' None]"
    then have p: "creds = OtherCredentials"
      and r: "fst (Connect env w creds) = Panics ''unknown credentials''"
      and ss: "steps t = [Step Resolve_Accesspoint ''failed getting accesspoint from resolver'' None,
                 Step Construct_Accesspoint ''failed initializing accesspoint'' None]"
      by blast+
    show ?thesis
      unfolding s Let_def r ss using c p a g by simp
  qed
qed

theorem Connect_strict_order_witness:
  "calls_since world_idle
      (snd (Connect env_failing world_idle (SessionUserPassCredentials ''alice'' ''secret''))) =
     [Call_NewLogin5 ''0123abcd'' ''ct'' (Some (Login5_ref 1)),
      Call_GetAccesspoint ''ap.example:4070'' None,
      Call_NewAccesspoint ''ap.example:4070'' ''0123abcd'' (Some (Accesspoint_ref 2)) None,
      Call_ConnectUserPass (Some (Accesspoint_ref 2)) ''alice'' ''secret'' None,
      Call_Login (Some (Login5_ref 1)) ''alice'' [1, 2, 3] (Some (Error ''bad credentials''))] \<and>
   calls_args_ok env_failing
     (session (snd (Connect env_failing world_idle (SessionUserPassCredentials ''alice'' ''secret''))))
     (calls world_idle)
     (calls_since world_idle
        (snd (Connect env_failing world_idle (SessionUserPassCredentials ''alice'' ''secret'')))) \<and>
   steps (calls_since world_idle
      (snd (Connect env_failing world_idle (SessionUserPassCredentials ''alice'' ''secret'')))) =
     [Step Resolve_Accesspoint ''failed getting accesspoint from resolver'' None,
      Step Construct_Accesspoint ''failed initializing accesspoint'' None,
      Step Authenticate ''failed authenticating accesspoint with username and password'' None,
      Step Exchange_Login5 ''failed authenticating with login5'' (Some (Error ''bad credentials''))] \<and>
   fst (Connect env_failing world_idle (SessionUserPassCredentials ''alice'' ''secret'')) =
     Returns (Some (Errorf ''failed authenticating with login5'' (Error ''bad credentials''))) \<and>
   calls_since world_idle (snd (Connect env_ok world_idle (SessionBlobCredentials ''alice'' [1, 2]))) =
     [Call_NewLogin5 ''0123abcd'' ''ct'' (Some (Login5_ref 1)),
      Call_GetAccesspoint ''ap.example:4070'' None,
      Call_NewAccesspoint ''ap.example:4070'' ''0123abcd'' (Some (Accesspoint_ref 2)) None,
      Call_ConnectBlob (Some (Accesspoint_ref 2)) ''alice'' [1, 2] None,
      Call_Login (Some (Login5_ref 1)) ''alice'' [1, 2, 3] None,
      Call_GetSpclient ''spclient.example:443'' None,
      Call_NewSpclient ''spclient.example:443'' ''token'' ''0123abcd'' ''ct''
        (Some (Spclient_ref 3)) None,
      Call_GetDealer ''dealer.example:443'' None,
      Call_NewDealer ''dealer.example:443'' ''token'' (Some (Dealer_ref 4)) None] \<and>
   length (steps (calls_since world_idle
      (snd (Connect env_ok world_idle (SessionBlobCredentials ''alice'' [1, 2]))))) = 8 \<and>
   fst (Connect env_ok world_idle (SessionBlobCredentials ''alice'' [1, 2])) = Returns None"
proof -
  let ?c1 = "Connect env_failing world_idle (SessionUserPassCredentials ''alice'' ''secret'')"
  let ?c2 = "Connect env_ok world_idle (SessionBlobCredentials ''alice'' [1, 2])"
  have t1: "calls_since world_idle (snd ?c1) =
     [Call_NewLogin5 ''0123abcd'' ''ct'' (Some (Login5_ref 1)),
      Call_GetAccesspoint ''ap.example:4070'' None,
      Call_NewAccesspoint ''ap.example:4070'' ''0123abcd'' (Some (Accesspoint_ref 2)) None,
      Call_ConnectUserPass (Some (Accesspoint_ref 2)) ''alice'' ''secret'' None,
      Call_Login (Some (Login5_ref 1)) ''alice'' [1, 2, 3] (Some (Error ''bad credentials''))]"
    by (simp add: Connect_def Connect_login5_def Let_def emit_def calls_since_def
        env_failing_def env_ok_def world_idle_def app0_def)
  have t2: "calls_since world_idle (snd ?c2) =
     [Call_NewLogin5 ''0123abcd'' ''ct'' (Some (Login5_ref 1)),
      Call_GetAccesspoint ''ap.example:4070'' None,
      Call_NewAccesspoint ''ap.example:4070'' ''0123abcd'' (Some (Accesspoint_ref 2)) None,
      Call_ConnectBlob (Some (Accesspoint_ref 2)) ''alice'' [1, 2] None,
      Call_Login (Some (Login5_ref 1)) ''alice'' [1, 2, 3] None,
      Call_GetSpclient ''spclient.example:443'' None,
      Call_NewSpclient ''spclient.example:443'' ''token'' ''0123abcd'' ''ct''
        (Some (Spclient_ref 3)) None,
      Call_GetDealer ''dealer.example:443'' None,
      Call_NewDealer ''dealer.example:443'' ''token'' (Some (Dealer_ref 4)) None]"
    by (simp add: Connect_def Connect_login5_def Connect_spclient_def Connect_dealer_def Let_def
        emit_def calls_since_def env_ok_def world_idle_def app0_def)
  have s1: "steps (calls_since world_idle (snd ?c1)) =
     [Step Resolve_Accesspoint ''failed getting accesspoint from resolver'' None,
      Step Construct_Accesspoint ''failed initializing accesspoint'' None,
      Step Authenticate ''failed authenticating accesspoint with username and password'' None,
      Step Exchange_Login5 ''failed authenticating with login5'' (Some (Error ''bad credentials''))]"
    unfolding t1 by (simp add: steps_def map_filter_def)
  have r2: "fst ?c2 = Returns None"
    by (simp add: Connect_def Connect_login5_def Connect_spclient_def Connect_dealer_def Let_def
        emit_def env_ok_def world_idle_def)
  note th1 = Connect_strict_order
    [of env_failing world_idle "SessionUserPassCredentials ''alice'' ''secret''"]
  from th1 have g1: "calls_args_ok env_failing (session (snd ?c1)) (calls world_idle)
      (calls_since world_idle (snd ?c1))"
    by blast
  from th1 have "case fst ?c1 of
         Returns None \<Rightarrow> False
       | Returns (Some err) \<Rightarrow>
           err = Errorf ''failed authenticating with login5'' (Error ''bad credentials'')
       | Panics p \<Rightarrow> False
       | Blocks \<Rightarrow> False"
    unfolding Let_def s1 by (simp split: outcome.splits option.splits)
  then have r1: "fst ?c1 =
      Returns (Some (Errorf ''failed authenticating with login5'' (Error ''bad credentials'')))"
    by (simp split: outcome.splits option.splits)
  from Connect_strict_order [of env_ok world_idle "SessionBlobCredentials ''alice'' [1, 2]"]
  have l2: "length (steps (calls_since world_idle (snd ?c2))) = 8"
    unfolding Let_def r2 by simp
  show ?thesis
    using t1 g1 s1 r1 t2 l2 r2 by (simp only: simp_thms)
qed

text \<open>
  C5.  The interface type of the credentials has values that are neither of the two
  credential types, and the type switch of \<open>Connect\<close> has a branch for them: with such a
  value, and the Accesspoint resolved and constructed, \<open>Connect\<close> panics with
  \<^verbatim>\<open>unknown credentials\<close>, having made no authentication call.
\<close>

theorem Connect_unknown_credentials_panics:
  "fst (Connect env_ok world_idle OtherCredentials) = Panics ''unknown credentials'' \<and>
   filter is_auth_call (calls (snd (Connect env_ok world_idle OtherCredentials))) = []"
  by (simp add: Connect_def Let_def emit_def env_ok_def world_idle_def)

text \<open>
  C5, as the code has it.  With username and password, the only authentication call
  \<open>Connect\<close> makes is one \<^verbatim>\<open>ConnectUserPass\<close> with that username and password, and with
  a blob one \<^verbatim>\<open>ConnectBlob\<close> with that username and blob; either is made unless
  resolving or constructing the Accesspoint failed, and in neither case does \<open>Connect\<close>
  panic.  With any other value of the interface no authentication call is made, and
  \<open>Connect\<close> panics with \<^verbatim>\<open>unknown credentials\<close> unless resolving or constructing the
  Accesspoint failed first.
\<close>

theorem Connect_credentials_dispatch:
  "(let r = fst (Connect env w (SessionUserPassCredentials u p));
        t = calls_since w (snd (Connect env w (SessionUserPassCredentials u p)))
    in ((\<exists>a e. filter is_auth_call t = [Call_ConnectUserPass a u p e]) \<or>
        filter is_auth_call t = [] \<and>
        ((\<exists>e. r = Returns (Some (Errorf ''failed getting accesspoint from resolver'' e))) \<or>
         (\<exists>e. r = Returns (Some (Errorf ''failed initializing accesspoint'' e))))) \<and>
       (\<forall>q. r \<noteq> Panics q)) \<and>
   (let r = fst (Connect env2 w2 (SessionBlobCredentials u2 b));
        t = calls_since w2 (snd (Connect env2 w2 (SessionBlobCredentials u2 b)))
    in ((\<exists>a e. filter is_auth_call t = [Call_ConnectBlob a u2 b e]) \<or>
        filter is_auth_call t = [] \<and>
        ((\<exists>e. r = Returns (Some (Errorf ''failed getting accesspoint from resolver'' e))) \<or>
         (\<exists>e. r = Returns (Some (Errorf ''failed initializing accesspoint'' e))))) \<and>
       (\<forall>q. r \<noteq> Panics q)) \<and>
   (let r = fst (Connect env3 w3 OtherCredentials);
        t = calls_since w3 (snd (Connect env3 w3 OtherCredentials))
    in filter is_auth_call t = [] \<and>
       (r = Panics ''unknown credentials'' \<or>
        (\<exists>e. r = Returns (Some (Errorf ''failed getting accesspoint from resolver'' e))) \<or>
        (\<exists>e. r = Returns (Some (Errorf ''failed initializing accesspoint'' e)))))"
proof -
  have up: "(let r = fst (Connect env w (SessionUserPassCredentials u p));
        t = calls_since w (snd (Connect env w (SessionUserPassCredentials u p)))
    in ((\<exists>a e. filter is_auth_call t = [Call_ConnectUserPass a u p e]) \<or>
        filter is_auth_call t = [] \<and>
        ((\<exists>e. r = Returns (Some (Errorf ''failed getting accesspoint from resolver'' e))) \<or>
         (\<exists>e. r = Returns (Some (Errorf ''failed initializing accesspoint'' e))))) \<and>
       (\<forall>q. r \<noteq> Panics q))"
    using Connect_auth_shape [of env w "SessionUserPassCredentials u p"] unfolding Let_def by auto
  have bl: "(let r = fst (Connect env2 w2 (SessionBlobCredentials u2 b));
        t = calls_since w2 (snd (Connect env2 w2 (SessionBlobCredentials u2 b)))
    in ((\<exists>a e. filter is_auth_call t = [Call_ConnectBlob a u2 b e]) \<or>
        filter is_auth_call t = [] \<and>
        ((\<exists>e. r = Returns (Some (Errorf ''failed getting accesspoint from resolver'' e))) \<or>
         (\<exists>e. r = Returns (Some (Errorf ''failed initializing accesspoint'' e))))) \<and>
       (\<forall>q. r \<noteq> Panics q))"
    using Connect_auth_shape [of env2 w2 "SessionBlobCredentials u2 b"] unfolding Let_def by auto
  have ot: "(let r = fst (Connect env3 w3 OtherCredentials);
        t = calls_since w3 (snd (Connect env3 w3 OtherCredentials))
    in filter is_auth_call t = [] \<and>
       (r = Panics ''unknown credentials'' \<or>
        (\<exists>e. r = Returns (Some (Errorf ''failed getting accesspoint from resolver'' e))) \<or>
        (\<exists>e. r = Returns (Some (Errorf ''failed initializing accesspoint'' e)))))"
    using Connect_auth_shape [of env3 w3 OtherCredentials] unfolding Let_def by auto
  from up bl ot show ?thesis by blast
qed

theorem Connect_credentials_dispatch_witness:
  "filter is_auth_call (calls_since world_idle
      (snd (Connect env_ok world_idle (SessionUserPassCredentials ''alice'' ''secret''))))
     = [Call_ConnectUserPass (Some (Accesspoint_ref 2)) ''alice'' ''secret'' None] \<and>
   filter is_auth_call (calls_since world_idle
      (snd (Connect env_ok world_idle (SessionBlobCredentials ''bob'' [7]))))
     = [Call_ConnectBlob (Some (Accesspoint_ref 2)) ''bob'' [7] None] \<and>
   filter is_auth_call (calls_since world_idle (snd (Connect env_ok world_idle OtherCredentials))) = [] \<and>
   fst (Connect env_ok world_idle OtherCredentials) = Panics ''unknown credentials''"
proof -
  have a: "calls_since world_idle
      (snd (Connect env_ok world_idle (SessionUserPassCredentials ''alice'' ''secret''))) \<noteq> []"
    "\<forall>c \<in> set (filter is_auth_call (calls_since world_idle
      (snd (Connect env_ok world_idle (SessionUserPassCredentials ''alice'' ''secret''))))).
       c = Call_ConnectUserPass (Some (Accesspoint_ref 2)) ''alice'' ''secret'' None"
    "fst (Connect env_ok world_idle (SessionUserPassCredentials ''alice'' ''secret'')) = Returns None"
    by (simp_all add: Connect_def Connect_login5_def Connect_spclient_def Connect_dealer_def
        Let_def emit_def calls_since_def env_ok_def world_idle_def)
  have b: "\<forall>c \<in> set (filter is_auth_call (calls_since world_idle
      (snd (Connect env_ok world_idle (SessionBlobCredentials ''bob'' [7]))))).
       c = Call_ConnectBlob (Some (Accesspoint_ref 2)) ''bob'' [7] None"
    "fst (Connect env_ok world_idle (SessionBlobCredentials ''bob'' [7])) = Returns None"
    by (simp_all add: Connect_def Connect_login5_def Connect_spclient_def Connect_dealer_def
        Let_def emit_def calls_since_def env_ok_def world_idle_def)
  have c: "\<forall>e. fst (Connect env_ok world_idle OtherCredentials) \<noteq> Returns e"
    by (simp add: Connect_def Let_def emit_def env_ok_def world_idle_def)
  let ?f1 = "filter is_auth_call (calls_since world_idle
      (snd (Connect env_ok world_idle (SessionUserPassCredentials ''alice'' ''secret''))))"
  let ?f2 = "filter is_auth_call (calls_since world_idle
      (snd (Connect env_ok world_idle (SessionBlobCredentials ''bob'' [7]))))"
  note d = Connect_credentials_dispatch [of env_ok world_idle "''alice''" "''secret''"
      env_ok world_idle "''bob''" "[7]" env_ok world_idle, unfolded Let_def]
  from d a(3) obtain a1 e1 where f1: "?f1 = [Call_ConnectUserPass a1 ''alice'' ''secret'' e1]"
    by auto
  from a(2) have "Call_ConnectUserPass a1 ''alice'' ''secret'' e1
      = Call_ConnectUserPass (Some (Accesspoint_ref 2)) ''alice'' ''secret'' None"
    unfolding f1 by simp
  with f1 have g1: "?f1 = [Call_ConnectUserPass (Some (Accesspoint_ref 2)) ''alice'' ''secret'' None]"
    by simp
  from d b(2) obtain a2 e2 where f2: "?f2 = [Call_ConnectBlob a2 ''bob'' [7] e2]"
    by auto
  from b(1) have "Call_ConnectBlob a2 ''bob'' [7] e2
      = Call_ConnectBlob (Some (Accesspoint_ref 2)) ''bob'' [7] None"
    unfolding f2 by simp
  with f2 have g2: "?f2 = [Call_ConnectBlob (Some (Accesspoint_ref 2)) ''bob'' [7] None]"
    by simp
  from d c have g3: "filter is_auth_call
      (calls_since world_idle (snd (Connect env_ok world_idle OtherCredentials))) = [] \<and>
    fst (Connect env_ok world_idle OtherCredentials) = Panics ''unknown credentials''"
    by auto
  from g1 g2 g3 show ?thesis
    by blast
qed

subsection \<open>The capabilities of the device\<close>

lemma handleDealerMessage_calls:
  "\<exists>t. calls (snd (handleDealerMessage env w msg)) = calls w @ t \<and>
     (\<forall>r \<in> set (put_requests t).
        Capabilities_of (DeviceInfo_of (Device_of r)) =
          \<lparr>CanBePlayer = True, RestrictToLocal = False, GaiaEqConnectId = True,
           SupportsLogout = True, IsObservable = True, VolumeSteps_of = 64,
           SupportedTypes = [''audio/track''], CommandAcks = True, SupportsRename = False,
           Hidden = False, DisableVolume = False, ConnectDisabled = False,
           SupportsPlaylistV2 = True, IsControllable = True, SupportsExternalEpisodes = False,
           SupportsSetBackendMetadata = False, SupportsTransferCommand = True,
           SupportsCommandRequest = True, IsVoiceEnabled = False, NeedsFullPlayerState = False,
           SupportsGzipPushes = True, SupportsSetOptionsCommand = False, SupportsHifi = None,
           ConnectCapabilities = []\<rparr>)"
proof (cases "HasPrefix (Uri msg) ''hm://pusher/v1/connections/''")
  case True
  then show ?thesis
    by (simp add: handleDealerMessage_def Let_def calls_emit session_emit VolumeSteps_def
        split: option.split)
next
  case False
  then show ?thesis
    by (auto simp: handleDealerMessage_def Close_def Let_def calls_emit session_emit
        split: option.split chan.split)
qed


lemma Run_loop_calls:
  assumes h: "\<And>w msg. \<exists>t. calls (snd (handleDealerMessage env w msg)) = calls w @ t \<and>
     (\<forall>r \<in> set (put_requests t). P r)"
  shows "\<exists>t. calls (snd (Run_loop env cs w)) = calls w @ t \<and> (\<forall>r \<in> set (put_requests t). P r)"
proof (induction cs arbitrary: w)
  case Nil
  show ?case by simp
next
  case (Cons c cs)
  show ?case
  proof (cases c)
    case Case_stop
    then show ?thesis
      by (simp split: option.split chan.split nat.split)
  next
    case (Case_apRecv pkt)
    show ?thesis
    proof (cases "handleAccesspointPacket env (Type pkt) (Payload_of pkt)")
      case None
      with Case_apRecv Cons.IH [of w] show ?thesis by simp
    next
      case (Some err)
      from Cons.IH [of "emit (Log_Warn err ''failed handling accesspoint packet'') w"]
      obtain t where "calls (snd (Run_loop env cs
            (emit (Log_Warn err ''failed handling accesspoint packet'') w)))
          = calls w @ (Log_Warn err ''failed handling accesspoint packet'' # t)"
        and "\<forall>r \<in> set (put_requests t). P r"
        by (auto simp: calls_emit)
      with Case_apRecv Some show ?thesis
        by (intro exI [of _ "Log_Warn err ''failed handling accesspoint packet'' # t"]) simp
    qed
  next
    case (Case_msgRecv msg)
    from h [of w msg] obtain t1 where t1: "calls (snd (handleDealerMessage env w msg)) = calls w @ t1"
      and p1: "\<forall>r \<in> set (put_requests t1). P r"
      by blast
    obtain res w' where hm: "handleDealerMessage env w msg = (res, w')"
      by (cases "handleDealerMessage env w msg")
    with t1 have c': "calls w' = calls w @ t1"
      by simp
    show ?thesis
    proof (cases res)
      case (Returns e)
      show ?thesis
      proof (cases e)
        case None
        from Cons.IH [of w'] obtain t2 where "calls (snd (Run_loop env cs w')) = calls w' @ t2"
          and "\<forall>r \<in> set (put_requests t2). P r"
          by blast
        with c' p1 Case_msgRecv hm Returns None show ?thesis
          by (intro exI [of _ "t1 @ t2"]) (auto simp: put_requests_append)
      next
        case (Some err)
        from Cons.IH [of "emit (Log_Warn err ''failed handling dealer message'') w'"]
        obtain t2 where "calls (snd (Run_loop env cs
              (emit (Log_Warn err ''failed handling dealer message'') w')))
            = calls w' @ (Log_Warn err ''failed handling dealer message'' # t2)"
          and "\<forall>r \<in> set (put_requests t2). P r"
          by (auto simp: calls_emit)
        with c' p1 Case_msgRecv hm Returns Some show ?thesis
          by (intro exI [of _ "t1 @ Log_Warn err ''failed handling dealer message'' # t2"])
            (auto simp: put_requests_append)
      qed
    next
      case (Panics p)
      with c' p1 Case_msgRecv hm show ?thesis
        by (intro exI [of _ t1]) simp
    next
      case Blocks
      with c' p1 Case_msgRecv hm show ?thesis
        by (intro exI [of _ t1]) simp
    qed
  qed
qed

lemma Run_calls:
  assumes h: "\<And>w msg. \<exists>t. calls (snd (handleDealerMessage env w msg)) = calls w @ t \<and>
     (\<forall>r \<in> set (put_requests t). P r)"
  shows "\<exists>t. calls (snd (Run env cs w)) = calls w @ t \<and> (\<forall>r \<in> set (put_requests t). P r)"
proof -
  let ?c1 = "Call_Receive (ap (session w)) PacketTypeProductInfo"
  let ?c2 = "Call_ReceiveMessage (dealer (session w))
     [''hm://pusher/v1/connections/'', ''hm://connect-state/v1/'']"
  let ?w2 = "emit ?c2 (emit ?c1 w)"
  from Run_loop_calls [of env P cs ?w2, OF h]
  obtain t where "calls (snd (Run_loop env cs ?w2)) = calls ?w2 @ t"
    and "\<forall>r \<in> set (put_requests t). P r"
    by blast
  then show ?thesis
    by (intro exI [of _ "?c1 # ?c2 # t"]) (simp add: Run_def Let_def calls_emit session_emit)
qed

text \<open>
  C9.  Take any two sessions, each connected with any credentials under any answers of
  its collaborators and then run through any choices of its select.  Every request
  either of them hands to \<^verbatim>\<open>PutConnectState\<close> carries the same capabilities, and they
  are the constants of the source: none depends on the credentials, the environment,
  the state of the session or the message handled.
\<close>

theorem capabilities_fixed:
  assumes "r1 \<in> set (put_requests (calls_since w1
      (snd (Run env1 cs1 (snd (Connect env1 w1 creds1))))))"
    and "r2 \<in> set (put_requests (calls_since w2
      (snd (Run env2 cs2 (snd (Connect env2 w2 creds2))))))"
  shows "Capabilities_of (DeviceInfo_of (Device_of r1)) = Capabilities_of (DeviceInfo_of (Device_of r2)) \<and>
    Capabilities_of (DeviceInfo_of (Device_of r1)) =
      \<lparr>CanBePlayer = True, RestrictToLocal = False, GaiaEqConnectId = True,
       SupportsLogout = True, IsObservable = True, VolumeSteps_of = 64,
       SupportedTypes = [''audio/track''], CommandAcks = True, SupportsRename = False,
       Hidden = False, DisableVolume = False, ConnectDisabled = False,
       SupportsPlaylistV2 = True, IsControllable = True, SupportsExternalEpisodes = False,
       SupportsSetBackendMetadata = False, SupportsTransferCommand = True,
       SupportsCommandRequest = True, IsVoiceEnabled = False, NeedsFullPlayerState = False,
       SupportsGzipPushes = True, SupportsSetOptionsCommand = False, SupportsHifi = None,
       ConnectCapabilities = []\<rparr>"
proof -
  let ?C = "\<lparr>CanBePlayer = True, RestrictToLocal = False, GaiaEqConnectId = True,
       SupportsLogout = True, IsObservable = True, VolumeSteps_of = 64,
       SupportedTypes = [''audio/track''], CommandAcks = True, SupportsRename = False,
       Hidden = False, DisableVolume = False, ConnectDisabled = False,
       SupportsPlaylistV2 = True, IsControllable = True, SupportsExternalEpisodes = False,
       SupportsSetBackendMetadata = False, SupportsTransferCommand = True,
       SupportsCommandRequest = True, IsVoiceEnabled = False, NeedsFullPlayerState = False,
       SupportsGzipPushes = True, SupportsSetOptionsCommand = False, SupportsHifi = None,
       ConnectCapabilities = []\<rparr>"
  have all: "Capabilities_of (DeviceInfo_of (Device_of r)) = ?C"
    if "r \<in> set (put_requests (calls_since w (snd (Run env cs (snd (Connect env w creds))))))"
    for r w env cs creds
  proof -
    from Connect_shape [of env w creds]
    obtain t where t: "calls (snd (Connect env w creds)) = calls w @ t" "put_requests t = []"
      by blast
    from Run_calls [of env "\<lambda>r. Capabilities_of (DeviceInfo_of (Device_of r)) = ?C" cs
        "snd (Connect env w creds)", OF handleDealerMessage_calls]
    obtain t2 where t2: "calls (snd (Run env cs (snd (Connect env w creds))))
        = calls (snd (Connect env w creds)) @ t2"
      and p: "\<forall>r \<in> set (put_requests t2). Capabilities_of (DeviceInfo_of (Device_of r)) = ?C"
      by blast
    have "calls_since w (snd (Run env cs (snd (Connect env w creds)))) = t @ t2"
      using t(1) t2 by (simp add: calls_since_def)
    with that t(2) have "r \<in> set (put_requests t2)"
      by (simp add: put_requests_append)
    with p show ?thesis by blast
  qed
  from all [OF assms(1)] all [OF assms(2)] show ?thesis
    by simp
qed

theorem capabilities_fixed_witness:
  "hd (put_requests (calls_since world_idle (snd (Run env_ok [Case_msgRecv msg_connections]
      (snd (Connect env_ok world_idle (SessionUserPassCredentials ''alice'' ''secret''))))))) \<in>
     set (put_requests (calls_since world_idle (snd (Run env_ok [Case_msgRecv msg_connections]
      (snd (Connect env_ok world_idle (SessionUserPassCredentials ''alice'' ''secret''))))))) \<and>
   hd (put_requests (calls_since world_idle (snd (Run env_failing [Case_msgRecv msg_connections_no_header]
      (snd (Connect env_failing world_idle (SessionBlobCredentials ''bob'' [7]))))))) \<in>
     set (put_requests (calls_since world_idle (snd (Run env_failing [Case_msgRecv msg_connections_no_header]
      (snd (Connect env_failing world_idle (SessionBlobCredentials ''bob'' [7]))))))) \<and>
   Capabilities_of (DeviceInfo_of (Device_of
     (hd (put_requests (calls_since world_idle (snd (Run env_ok [Case_msgRecv msg_connections]
      (snd (Connect env_ok world_idle (SessionUserPassCredentials ''alice'' ''secret''))))))))))
   = Capabilities_of (DeviceInfo_of (Device_of
     (hd (put_requests (calls_since world_idle (snd (Run env_failing [Case_msgRecv msg_connections_no_header]
      (snd (Connect env_failing world_idle (SessionBlobCredentials ''bob'' [7]))))))))))"
proof -
  let ?x1 = "put_requests (calls_since world_idle (snd (Run env_ok [Case_msgRecv msg_connections]
      (snd (Connect env_ok world_idle (SessionUserPassCredentials ''alice'' ''secret''))))))"
  let ?x2 = "put_requests (calls_since world_idle (snd (Run env_failing [Case_msgRecv msg_connections_no_header]
      (snd (Connect env_failing world_idle (SessionBlobCredentials ''bob'' [7]))))))"
  have n1: "length ?x1 = 1"
    by (simp add: Run_def Connect_def Connect_login5_def Connect_spclient_def Connect_dealer_def
        handleDealerMessage_def HasPrefix_def Let_def emit_def calls_since_def env_ok_def
        world_idle_def msg_connections_def)
  have n2: "length ?x2 = 1"
    by (simp add: Run_def Connect_def Connect_login5_def Connect_spclient_def Connect_dealer_def
        handleDealerMessage_def HasPrefix_def Let_def emit_def calls_since_def env_failing_def
        env_ok_def world_idle_def msg_connections_no_header_def)
  have m1: "hd ?x1 \<in> set ?x1"
    using n1 by (cases ?x1) simp_all
  have m2: "hd ?x2 \<in> set ?x2"
    using n2 by (cases ?x2) simp_all
  from capabilities_fixed [OF m1 m2] m1 m2 show ?thesis
    by blast
qed

end
